theory Spec2Isabelle
  imports Complex_Main "HOL-Library.AList"
begin

section \<open>JavaScript values used by prompt-vcs\<close>

text \<open>
  Strings are lists of 8-bit characters: the code units below 256.  The
  measurements of the test runner (\<open>number\<close> in the TypeScript sources)
  are modelled as exact reals; the statistical analyzer computes with
  binary64 numbers, \<open>NaN\<close> and the infinities, introduced with it;
  counters and exit codes are naturals or integers.  A thrown \<open>Error\<close> is
  the value \<open>Error msg\<close> on the left of a sum.
\<close>

datatype js_error = Error string

text \<open>\<open>String.prototype.trim\<close>: white space and line terminators of the
  code units below 256 (TAB, LF, VT, FF, CR, SP, NBSP).\<close>

definition isWhiteSpace :: "char \<Rightarrow> bool" where
  "isWhiteSpace c =
     (c \<in> set [CHR 0x09, CHR 0x0A, CHR 0x0B, CHR 0x0C, CHR 0x0D, CHR 0x20, CHR 0xA0])"

definition trim :: "string \<Rightarrow> string" where
  "trim s = rev (dropWhile isWhiteSpace (rev (dropWhile isWhiteSpace s)))"

text \<open>\<open>s.startsWith(p)\<close>.\<close>

definition startsWith :: "string \<Rightarrow> string \<Rightarrow> bool" where
  "startsWith s p = (take (length p) s = p)"

text \<open>
  A plain object (\<open>{}\<close>, or what \<open>JSON.parse\<close> returns) is the list of its
  own properties in insertion order.  \<open>Object.keys\<close> lists the keys, \<open>obj[k]\<close>
  on an own key reads the value.  An assignment \<open>obj[k] = v\<close> of a string
  \<open>v\<close> to an object literal adds or overwrites the own property, except for
  the key \<open>__proto__\<close>: that one is the accessor inherited from
  \<open>Object.prototype\<close>, whose setter ignores a value that is not an object.
\<close>

type_synonym 'v js_object = "(string \<times> 'v) list"

definition Object_keys :: "'v js_object \<Rightarrow> string list" where
  "Object_keys obj = map fst obj"

definition own_property :: "'v js_object \<Rightarrow> string \<Rightarrow> 'v option" where
  "own_property obj k = map_of obj k"

definition assign_property :: "string \<Rightarrow> string \<Rightarrow> string js_object \<Rightarrow> string js_object" where
  "assign_property k v obj = (if k = ''__proto__'' then obj else AList.update k v obj)"

section \<open>Object storage (core/storage.ts) and the repository (core/repository.ts)\<close>

record StagedFile =
  hash :: string
  path :: string

record Index =
  staged :: "StagedFile js_object"

text \<open>A commit object; its \<open>type\<close> field is the constant \<open>'commit'\<close>.\<close>

record Commit =
  tree :: "string js_object"
  parent :: "string option"
  message :: string
  timestamp :: string

text \<open>
  The \<open>.pvc\<close> directory: whether it exists, the parsed \<open>index.json\<close>, the
  text of the \<open>HEAD\<close> file (absent before the first commit) and the files
  under \<open>objects/\<close>, addressed by shard directory and entry name.
\<close>

record Repository =
  pvcDirExists :: bool
  indexFile :: Index
  headFile :: "string option"
  objectFiles :: "string \<times> string \<Rightarrow> string option"

definition getObjectPath :: "string \<Rightarrow> string \<times> string" where
  "getObjectPath h = (take 2 h, drop 2 h)"

definition writeObject :: "string \<Rightarrow> string \<Rightarrow> Repository \<Rightarrow> Repository" where
  "writeObject h content repo =
     repo\<lparr>objectFiles := (objectFiles repo)(getObjectPath h \<mapsto> content)\<rparr>"

definition readObject :: "Repository \<Rightarrow> string \<Rightarrow> js_error + string" where
  "readObject repo h =
     (case objectFiles repo (getObjectPath h) of
        None \<Rightarrow> Inl (Error (''Object not found: '' @ h))
      | Some content \<Rightarrow> Inr content)"

definition isInitialized :: "Repository \<Rightarrow> bool" where
  "isInitialized repo = pvcDirExists repo"

definition readIndex :: "Repository \<Rightarrow> Index" where
  "readIndex repo = indexFile repo"

definition writeIndex :: "Index \<Rightarrow> Repository \<Rightarrow> Repository" where
  "writeIndex index repo = repo\<lparr>indexFile := index\<rparr>"

definition getHead :: "Repository \<Rightarrow> string option" where
  "getHead repo = (case headFile repo of None \<Rightarrow> None | Some text \<Rightarrow> Some (trim text))"

definition setHead :: "string \<Rightarrow> Repository \<Rightarrow> Repository" where
  "setHead commitHash repo = repo\<lparr>headFile := Some commitHash\<rparr>"

section \<open>The commit command (commands/commit.ts)\<close>

text \<open>
  The loop \<open>for (const path of stagedFiles) tree[path] = index.staged[path].hash\<close>,
  started from the empty object.  The paths are the keys of the staged
  object, so each read finds its entry.
\<close>

fun buildTree :: "StagedFile js_object \<Rightarrow> string list \<Rightarrow> string js_object \<Rightarrow> string js_object" where
  "buildTree stagedObj [] acc = acc"
| "buildTree stagedObj (p # ps) acc =
     (case own_property stagedObj p of
        None \<Rightarrow> buildTree stagedObj ps acc
      | Some entry \<Rightarrow> buildTree stagedObj ps (assign_property p (hash entry) acc))"

text \<open>The commit object built by \<open>commitCommand\<close>; \<open>now\<close> is the text of
  \<open>new Date().toISOString()\<close>.\<close>

definition buildCommit :: "string \<Rightarrow> Repository \<Rightarrow> string \<Rightarrow> Commit" where
  "buildCommit now repo msg =
     (let index = readIndex repo;
          stagedFiles = Object_keys (staged index)
      in \<lparr>tree = buildTree (staged index) stagedFiles [],
          parent = getHead repo,
          message = trim msg,
          timestamp = now\<rparr>)"

text \<open>
  \<open>commitCommand\<close> returns the exit code; the repository after the call is
  the second component.  \<open>hashContent\<close> (SHA-256 as hex) and \<open>JSON_stringify\<close>
  are the library functions the command calls.  Console output is left out.
\<close>

definition commitCommand ::
  "(string \<Rightarrow> string) \<Rightarrow> (Commit \<Rightarrow> string) \<Rightarrow> string \<Rightarrow> Repository \<Rightarrow> string
     \<Rightarrow> nat \<times> Repository" where
  "commitCommand hashContent JSON_stringify now repo msg =
     (if \<not> isInitialized repo then (2, repo)
      else if msg = [] \<or> trim msg = [] then (1, repo)
      else
        let index = readIndex repo;
            stagedFiles = Object_keys (staged index)
        in if length stagedFiles = 0 then (3, repo)
           else
             let commit = buildCommit now repo msg;
                 commitContent = JSON_stringify commit;
                 commitHash = hashContent commitContent;
                 repo1 = writeObject commitHash commitContent repo;
                 repo2 = setHead commitHash repo1;
                 repo3 = writeIndex (index\<lparr>staged := []\<rparr>) repo2
             in (0, repo3))"

section \<open>Resolving a commit reference\<close>

text \<open>
  \<open>JSON_parse\<close> stands for \<open>JSON.parse\<close> on the text of a stored object:
  \<open>None\<close> when it throws, otherwise the parsed value, which is a commit, a
  blob or some other JSON value.
\<close>

datatype stored_object = CommitObject Commit | BlobObject string | OtherObject

text \<open>\<open>Repository.getCommit\<close>: the commit stored under the hash, \<open>null\<close>
  when reading or parsing throws or the object is not a commit.\<close>

definition getCommit :: "(string \<Rightarrow> stored_object option) \<Rightarrow> Repository \<Rightarrow> string \<Rightarrow> Commit option" where
  "getCommit JSON_parse repo h =
     (case readObject repo h of
        Inl e \<Rightarrow> None
      | Inr content \<Rightarrow>
          (case JSON_parse content of
             Some (CommitObject commit) \<Rightarrow> Some commit
           | _ \<Rightarrow> None))"

text \<open>\<open>Repository.resolveCommit\<close> (core/repository.ts).\<close>

definition resolveCommit :: "(string \<Rightarrow> stored_object option) \<Rightarrow> Repository \<Rightarrow> string \<Rightarrow> string option" where
  "resolveCommit JSON_parse repo ref =
     (if length ref \<ge> 7 \<and> getCommit JSON_parse repo ref \<noteq> None then Some ref
      else if ref = ''HEAD'' then getHead repo
      else None)"

text \<open>
  The \<open>resolveCommit\<close> of the diff command (commands/diff.ts) and its own
  \<open>getCommit\<close>, which throws where the repository's returns \<open>null\<close> and
  does not look at the object's type: the parent of a blob or of another
  JSON value is \<open>undefined\<close>, which ends the walk.  (The text of the
  \<open>SyntaxError\<close> of \<open>JSON.parse\<close> depends on the engine; one fixed text
  stands for it.)  The walk follows
  \<open>parent\<close> for as long as the store leads it, so it is a partial function:
  \<open>None\<close> is a walk that never ends.
\<close>

definition diff_getCommit ::
  "(string \<Rightarrow> stored_object option) \<Rightarrow> Repository \<Rightarrow> string \<Rightarrow> js_error + string option" where
  "diff_getCommit JSON_parse repo h =
     (case readObject repo h of
        Inl e \<Rightarrow> Inl e
      | Inr content \<Rightarrow>
          (case JSON_parse content of
             None \<Rightarrow> Inl (Error ''Unexpected token in JSON'')
           | Some (CommitObject commit) \<Rightarrow> Inr (parent commit)
           | Some other \<Rightarrow> Inr None))"

partial_function (option) diff_walk ::
  "(string \<Rightarrow> js_error + string option) \<Rightarrow> string \<Rightarrow> string option
     \<Rightarrow> (js_error + string) option" where
  "diff_walk getCommitParent shortHash currentHash =
     (case currentHash of
        None \<Rightarrow> Some (Inl (Error (''Invalid commit: '' @ shortHash)))
      | Some h \<Rightarrow>
          if h = [] then Some (Inl (Error (''Invalid commit: '' @ shortHash)))
          else if startsWith h shortHash then Some (Inr h)
          else if isl (getCommitParent h) then Some (Inl (projl (getCommitParent h)))
          else diff_walk getCommitParent shortHash (projr (getCommitParent h)))"

definition diff_resolveCommit ::
  "(string \<Rightarrow> stored_object option) \<Rightarrow> Repository \<Rightarrow> string \<Rightarrow> (js_error + string) option" where
  "diff_resolveCommit JSON_parse repo shortHash =
     (case getHead repo of
        None \<Rightarrow> Some (Inl (Error ''No commits found''))
      | Some headHash \<Rightarrow>
          if headHash = [] then Some (Inl (Error ''No commits found''))
          else diff_walk (diff_getCommit JSON_parse repo) shortHash (Some headHash))"

section \<open>The chat completion client as the test runner sees it (core/openai-client.ts)\<close>

record ChatMessage =
  role :: string
  content :: string

record ChatCompletionRequest =
  model :: string
  messages :: "ChatMessage list"

record Choice =
  message_content :: string
  finish_reason :: string

record Usage =
  prompt_tokens :: real
  completion_tokens :: real
  total_tokens :: real

record ChatCompletionResponse =
  response_id :: string
  choices :: "Choice list"
  usage :: Usage

text \<open>
  A call of \<open>client.createChatCompletion\<close> either resolves with a response
  or rejects; \<open>Rejected msg\<close> carries the message of the error the runner
  catches (\<open>error instanceof Error ? error : new Error(String(error))\<close>).
\<close>

datatype provider_outcome =
    is_Resolved: Resolved (the_response: ChatCompletionResponse)
  | is_Rejected: Rejected (the_message: string)

text \<open>
  \<open>OpenAIClient.createChatCompletion\<close> wraps one call of the SDK's
  \<open>chat.completions.create\<close>, whose retries of its own are inside that
  call.  The body of its \<open>try\<close> block ends in one of three ways: it
  returns the SDK's response, in which a content, the usage and its counts
  may be missing; it throws an \<open>Error\<close> with a message; or it throws
  some other value.  (No \<open>OpenAIError\<close> of this module can come out of
  the \<open>try\<close> block: the class is built only in the constructor and in
  this \<open>catch\<close>, so the branch that throws it again is not taken.)
\<close>

record SdkChoice =
  sdk_content :: "string option"
  sdk_finish_reason :: string

record SdkUsage =
  sdk_prompt_tokens :: "real option"
  sdk_completion_tokens :: "real option"
  sdk_total_tokens :: "real option"

record SdkResponse =
  sdk_id :: string
  sdk_choices :: "SdkChoice list"
  sdk_usage :: "SdkUsage option"

datatype sdk_outcome = SdkReturned SdkResponse | SdkThrewError string | SdkThrewOther

text \<open>\<open>v || 0\<close> on an optional count and \<open>v || ''\<close> on an optional text.\<close>

definition or_zero :: "real option \<Rightarrow> real" where
  "or_zero v = (case v of None \<Rightarrow> 0 | Some x \<Rightarrow> x)"

definition or_empty :: "string option \<Rightarrow> string" where
  "or_empty v = (case v of None \<Rightarrow> [] | Some x \<Rightarrow> x)"

definition OpenAIClient_createChatCompletion :: "sdk_outcome \<Rightarrow> provider_outcome" where
  "OpenAIClient_createChatCompletion outcome =
     (case outcome of
        SdkReturned response \<Rightarrow>
          Resolved
            \<lparr>response_id = sdk_id response,
             choices = map (\<lambda>choice. \<lparr>message_content = or_empty (sdk_content choice),
                                       finish_reason = sdk_finish_reason choice\<rparr>)
                         (sdk_choices response),
             usage =
               (case sdk_usage response of
                  None \<Rightarrow> \<lparr>prompt_tokens = 0, completion_tokens = 0, total_tokens = 0\<rparr>
                | Some u \<Rightarrow>
                    \<lparr>prompt_tokens = or_zero (sdk_prompt_tokens u),
                     completion_tokens = or_zero (sdk_completion_tokens u),
                     total_tokens = or_zero (sdk_total_tokens u)\<rparr>)\<rparr>
      | SdkThrewError msg \<Rightarrow> Rejected (''API request failed: '' @ msg)
      | SdkThrewOther \<Rightarrow> Rejected ''API request failed: Unknown error'')"

section \<open>Test cases and results (types/test.ts)\<close>

record TestCase =
  name :: string
  inputs :: "string js_object"
  expectedOutput :: "string option"

record Dataset =
  testCases :: "TestCase list"

text \<open>The options; \<open>runner_model\<close> is the field \<open>model\<close>.  \<open>maxRetries\<close> and
  \<open>concurrency\<close> are integers.\<close>

record TestRunnerOptions =
  runner_model :: string
  concurrency :: int
  maxRetries :: int
  apiKey :: string

text \<open>The fields \<open>name\<close>, \<open>success\<close>, \<open>latency\<close>, \<open>inputTokens\<close>,
  \<open>outputTokens\<close>, \<open>cost\<close>, \<open>error?\<close> and \<open>output?\<close> of a
  \<open>TestCaseResult\<close>, the first as \<open>result_name\<close> and the last as
  \<open>output_text\<close>.\<close>

record TestCaseResult =
  result_name :: string
  success :: bool
  latency :: real
  inputTokens :: real
  outputTokens :: real
  cost :: real
  error :: "string option"
  output_text :: "string option"

record MetricsSummary =
  avgLatency :: real
  avgInputTokens :: real
  avgOutputTokens :: real
  avgCost :: real
  successRate :: real
  totalCount :: nat
  successCount :: nat

text \<open>\<open>result_testCases\<close> is the field \<open>testCases\<close> of a
  \<open>VersionResult\<close>.\<close>

record VersionResult =
  result_testCases :: "TestCaseResult list"
  summary :: MetricsSummary

section \<open>Cost of a request (core/test-runner.ts)\<close>

text \<open>
  \<open>Number(x.toFixed(d))\<close> on a real: the nearest multiple of \<open>10\<^sup>-\<^sup>d\<close>,
  a tie going away from zero; from \<open>10\<^sup>2\<^sup>1\<close> on, \<open>toFixed\<close> prints the
  number itself.
\<close>

definition toFixed :: "nat \<Rightarrow> real \<Rightarrow> real" where
  "toFixed d x =
     (if \<bar>x\<bar> \<ge> 10 ^ 21 then x
      else sgn x * of_int \<lfloor>\<bar>x\<bar> * 10 ^ d + 1 / 2\<rfloor> / 10 ^ d)"

text \<open>The table \<open>MODEL_PRICING\<close>: input and output price per 1000 tokens.\<close>

definition MODEL_PRICING :: "(string \<times> real \<times> real) list" where
  "MODEL_PRICING =
     [(''gpt-4'', 0.03, 0.06),
      (''gpt-4-0613'', 0.03, 0.06),
      (''gpt-4-32k'', 0.06, 0.12),
      (''gpt-4o'', 0.005, 0.015),
      (''gpt-4o-mini'', 0.00015, 0.0006),
      (''gpt-3.5-turbo'', 0.0015, 0.002),
      (''gpt-3.5-turbo-0125'', 0.0005, 0.0015)]"

text \<open>\<open>MODEL_PRICING[k]\<close> for a key \<open>k\<close> of the table.\<close>

definition pricing_of :: "string \<Rightarrow> real \<times> real" where
  "pricing_of k = (case map_of MODEL_PRICING k of Some p \<Rightarrow> p | None \<Rightarrow> (0.03, 0.06))"

text \<open>\<open>getModelPricing\<close>: the exact entry, then the prefixes in the order of
  the source, then the price of \<open>gpt-4\<close>.  (A model name that is a property
  of \<open>Object.prototype\<close> is not priced by the source and is outside this
  function.)\<close>

definition getModelPricing :: "string \<Rightarrow> real \<times> real" where
  "getModelPricing m =
     (case map_of MODEL_PRICING m of
        Some p \<Rightarrow> p
      | None \<Rightarrow>
          if startsWith m ''gpt-4o-mini'' then pricing_of ''gpt-4o-mini''
          else if startsWith m ''gpt-4o'' then pricing_of ''gpt-4o''
          else if startsWith m ''gpt-4-32k'' then pricing_of ''gpt-4-32k''
          else if startsWith m ''gpt-4'' then pricing_of ''gpt-4''
          else if startsWith m ''gpt-3.5-turbo-0125'' then pricing_of ''gpt-3.5-turbo-0125''
          else if startsWith m ''gpt-3.5-turbo'' then pricing_of ''gpt-3.5-turbo''
          else pricing_of ''gpt-4'')"

definition calculateCost :: "string \<Rightarrow> real \<Rightarrow> real \<Rightarrow> real" where
  "calculateCost m inTokens outTokens =
     (let pricing = getModelPricing m;
          inputCost = (inTokens / 1000) * fst pricing;
          outputCost = (outTokens / 1000) * snd pricing
      in toFixed 6 (inputCost + outputCost))"

section \<open>Template rendering (TestRunner.replaceVariables)\<close>

text \<open>The class \<open>\w\<close>: ASCII letters, digits and the underscore.\<close>

definition isWordChar :: "char \<Rightarrow> bool" where
  "isWordChar c =
     (let n = (of_char c :: nat)
      in (48 \<le> n \<and> n \<le> 57) \<or> (65 \<le> n \<and> n \<le> 90) \<or> n = 95 \<or> (97 \<le> n \<and> n \<le> 122))"

text \<open>
  One attempt of the pattern \<open>\{\{(\w+)\}\}\<close> at the head of the text: two
  opening braces, the longest run of word characters, which must not be
  empty, and two closing braces.  (A shorter run is followed by a word
  character, so backtracking finds nothing more.)  The result is the
  captured key and the text after the match.
\<close>

definition matchToken :: "string \<Rightarrow> (string \<times> string) option" where
  "matchToken s =
     (case s of
        c1 # c2 # r \<Rightarrow>
          if c1 = CHR ''{'' \<and> c2 = CHR ''{'' then
            (let key = takeWhile isWordChar r;
                 r' = dropWhile isWordChar r
             in if key \<noteq> [] \<and> take 2 r' = ''}}'' then Some (key, drop 2 r') else None)
          else None
      | _ \<Rightarrow> None)"

text \<open>
  What \<open>String(Object.prototype[k])\<close> is for the properties every plain
  object inherits: the source text of a native function, and for
  \<open>__proto__\<close> the prototype itself printed as an object.
\<close>

definition nativeFunction :: "string \<Rightarrow> string" where
  "nativeFunction f = ''function '' @ f @ ''() { [native code] }''"

definition Object_prototype :: "string js_object" where
  "Object_prototype =
     [(''constructor'', nativeFunction ''Object''),
      (''__defineGetter__'', nativeFunction ''__defineGetter__''),
      (''__defineSetter__'', nativeFunction ''__defineSetter__''),
      (''hasOwnProperty'', nativeFunction ''hasOwnProperty''),
      (''__lookupGetter__'', nativeFunction ''__lookupGetter__''),
      (''__lookupSetter__'', nativeFunction ''__lookupSetter__''),
      (''isPrototypeOf'', nativeFunction ''isPrototypeOf''),
      (''propertyIsEnumerable'', nativeFunction ''propertyIsEnumerable''),
      (''toString'', nativeFunction ''toString''),
      (''valueOf'', nativeFunction ''valueOf''),
      (''__proto__'', ''[object Object]''),
      (''toLocaleString'', nativeFunction ''toLocaleString'')]"

text \<open>\<open>inputs[key]\<close> on the plain object \<open>inputs\<close>, as the text that
  \<open>replace\<close> inserts: an own property first, then an inherited one;
  \<open>None\<close> is \<open>undefined\<close>.\<close>

definition get_property :: "string js_object \<Rightarrow> string \<Rightarrow> string option" where
  "get_property obj key =
     (case own_property obj key of
        Some v \<Rightarrow> Some v
      | None \<Rightarrow> own_property Object_prototype key)"

text \<open>The callback of \<open>replace\<close>:
  \<open>inputs[key] !== undefined ? inputs[key] : ''\<close>.\<close>

definition replacement :: "string js_object \<Rightarrow> string \<Rightarrow> string" where
  "replacement obj key = (case get_property obj key of Some v \<Rightarrow> v | None \<Rightarrow> [])"

text \<open>
  \<open>template.replace(/\{\{(\w+)\}\}/g, callback)\<close>: the text is scanned from
  the left; a match is replaced and the scan goes on behind it, any other
  character is copied.
\<close>

function replaceVariables :: "string \<Rightarrow> string js_object \<Rightarrow> string" where
  "replaceVariables template obj =
     (case template of
        [] \<Rightarrow> []
      | c # cs \<Rightarrow>
          (case matchToken template of
             Some (key, rest) \<Rightarrow> replacement obj key @ replaceVariables rest obj
           | None \<Rightarrow> c # replaceVariables cs obj))"
  by pat_completeness auto
termination
proof (relation "measure (\<lambda>(template, obj). length template)")
  fix template :: string and obj :: "string js_object" and c cs x2 key rest
  assume s: "template = c # cs" and m: "matchToken template = Some x2" and x: "(key, rest) = x2"
  from s m x obtain c2 r where r: "cs = c2 # r" and "rest = drop 2 (dropWhile isWordChar r)"
    by (cases cs) (auto simp add: matchToken_def Let_def split: if_splits)
  moreover have "length (dropWhile isWordChar r) \<le> length r"
    by (rule length_dropWhile_le)
  ultimately show "((rest, obj), template, obj) \<in> measure (\<lambda>(template, obj). length template)"
    using s by simp
qed auto

section \<open>Executing one test case (TestRunner.executeTestCase)\<close>

text \<open>
  What the case meets while it runs: the outcome of its \<open>k\<close>-th call of the
  client (\<open>k\<close> is the attempt, counted from 0) on the request it sends, and
  the two readings of \<open>Date.now()\<close>, one on entry and one when the result is
  built.  What it does is recorded as a list of events: the calls of the
  client and the sleeps, in milliseconds.
\<close>

record case_env =
  createChatCompletion :: "nat \<Rightarrow> ChatCompletionRequest \<Rightarrow> provider_outcome"
  startTime :: real
  endTime :: real

datatype runner_event = ProviderCall nat ChatCompletionRequest | Sleep real

text \<open>The runner's own client: \<open>new OpenAIClient(...)\<close> over an SDK whose
  \<open>k\<close>-th call for this case ends as \<open>sdk k request\<close> says.\<close>

definition client_env ::
  "(nat \<Rightarrow> ChatCompletionRequest \<Rightarrow> sdk_outcome) \<Rightarrow> real \<Rightarrow> real \<Rightarrow> case_env" where
  "client_env sdk t0 t1 =
     \<lparr>createChatCompletion = (\<lambda>k request. OpenAIClient_createChatCompletion (sdk k request)),
      startTime = t0,
      endTime = t1\<rparr>"

definition chatRequest :: "TestRunnerOptions \<Rightarrow> string \<Rightarrow> ChatCompletionRequest" where
  "chatRequest opts prompt =
     \<lparr>model = runner_model opts, messages = [\<lparr>role = ''user'', content = prompt\<rparr>]\<rparr>"

text \<open>The result returned inside the \<open>try\<close> block.\<close>

definition successResult ::
  "TestRunnerOptions \<Rightarrow> case_env \<Rightarrow> TestCase \<Rightarrow> ChatCompletionResponse \<Rightarrow> TestCaseResult" where
  "successResult opts env testCase response =
     (let inTokens = prompt_tokens (usage response);
          outTokens = completion_tokens (usage response)
      in \<lparr>result_name = name testCase,
          success = True,
          latency = endTime env - startTime env,
          inputTokens = inTokens,
          outputTokens = outTokens,
          cost = calculateCost (runner_model opts) inTokens outTokens,
          error = None,
          output_text = Some (case choices response of [] \<Rightarrow> [] | c # cs \<Rightarrow> message_content c)\<rparr>)"

text \<open>The result returned behind the loop; \<open>lastError\<close> is the message of
  the last error caught, \<open>None\<close> when none was.\<close>

definition failureResult :: "case_env \<Rightarrow> TestCase \<Rightarrow> string option \<Rightarrow> TestCaseResult" where
  "failureResult env testCase lastError =
     \<lparr>result_name = name testCase,
      success = False,
      latency = endTime env - startTime env,
      inputTokens = 0,
      outputTokens = 0,
      cost = 0,
      error = Some (case lastError of
                      None \<Rightarrow> ''Unknown error''
                    | Some msg \<Rightarrow> if msg = [] then ''Unknown error'' else msg),
      output_text = None\<rparr>"

text \<open>
  The loop \<open>for (let attempt = 0; attempt <= maxRetries; attempt++)\<close> from
  the attempt it is about to make, with the last error and the events so
  far.
\<close>

function attemptLoop ::
  "TestRunnerOptions \<Rightarrow> case_env \<Rightarrow> TestCase \<Rightarrow> string \<Rightarrow> nat \<Rightarrow> string option
     \<Rightarrow> runner_event list \<Rightarrow> TestCaseResult \<times> runner_event list" where
  "attemptLoop opts env testCase prompt attempt lastError events =
     (if int attempt \<le> maxRetries opts then
        (case createChatCompletion env attempt (chatRequest opts prompt) of
           Resolved response \<Rightarrow>
             (successResult opts env testCase response,
              events @ [ProviderCall attempt (chatRequest opts prompt)])
         | Rejected msg \<Rightarrow>
             if int attempt < maxRetries opts then
               attemptLoop opts env testCase prompt (attempt + 1) (Some msg)
                 (events @ [ProviderCall attempt (chatRequest opts prompt),
                            Sleep (2 ^ attempt * 1000)])
             else
               attemptLoop opts env testCase prompt (attempt + 1) (Some msg)
                 (events @ [ProviderCall attempt (chatRequest opts prompt)]))
      else (failureResult env testCase lastError, events))"
  by pat_completeness auto
termination
  by (relation "measure (\<lambda>(opts, env, testCase, prompt, attempt, lastError, events).
                   nat (maxRetries opts + 1 - int attempt))") auto

definition executeTestCase ::
  "TestRunnerOptions \<Rightarrow> case_env \<Rightarrow> TestCase \<Rightarrow> string \<Rightarrow> TestCaseResult \<times> runner_event list" where
  "executeTestCase opts env testCase promptTemplate =
     attemptLoop opts env testCase (replaceVariables promptTemplate (inputs testCase)) 0 None []"

text \<open>The calls of the client and the sleeps among the events.\<close>

definition providerCalls :: "runner_event list \<Rightarrow> nat list" where
  "providerCalls events = concat (map (\<lambda>e. case e of ProviderCall k req \<Rightarrow> [k] | Sleep ms \<Rightarrow> []) events)"

definition sleeps :: "runner_event list \<Rightarrow> real list" where
  "sleeps events = concat (map (\<lambda>e. case e of ProviderCall k req \<Rightarrow> [] | Sleep ms \<Rightarrow> [ms]) events)"

text \<open>
  The retry policy in the words of the specification: attempts \<open>0\<close> to
  \<open>n\<close> are made, and each of the attempts before the last is followed by
  a sleep of \<open>2\<^sup>k\<close> seconds, \<open>k\<close> being the attempt.
\<close>

definition backoff :: "ChatCompletionRequest \<Rightarrow> nat \<Rightarrow> runner_event list" where
  "backoff request k = [ProviderCall k request, Sleep (2 ^ k * 1000)]"

definition retryEvents :: "ChatCompletionRequest \<Rightarrow> nat \<Rightarrow> runner_event list" where
  "retryEvents request n = concat (map (backoff request) [0..<n]) @ [ProviderCall n request]"

section \<open>Summary of a run (TestRunner.calculateSummary)\<close>

definition average :: "real list \<Rightarrow> real" where
  "average values = (if length values = 0 then 0 else foldl (+) 0 values / real (length values))"

definition calculateSummary :: "TestCaseResult list \<Rightarrow> MetricsSummary" where
  "calculateSummary results =
     (let total = length results;
          successes = length (filter success results);
          rate = (if total > 0 then real successes / real total else 0);
          successfulResults = filter success results
      in if length successfulResults = 0 then
           \<lparr>avgLatency = 0, avgInputTokens = 0, avgOutputTokens = 0, avgCost = 0,
            successRate = 0, totalCount = total, successCount = 0\<rparr>
         else
           \<lparr>avgLatency = toFixed 2 (average (map latency successfulResults)),
            avgInputTokens = toFixed 2 (average (map inputTokens successfulResults)),
            avgOutputTokens = toFixed 2 (average (map outputTokens successfulResults)),
            avgCost = toFixed 6 (average (map cost successfulResults)),
            successRate = toFixed 2 rate,
            totalCount = total,
            successCount = successes\<rparr>)"

section \<open>Running a dataset (TestRunner.run)\<close>

text \<open>
  \<open>run\<close> hands every test case to \<open>pLimit(concurrency)\<close> and awaits
  \<open>Promise.all\<close> of the promises, in dataset order.  \<open>Promise.all\<close> keeps
  one slot per promise and fills slot \<open>i\<close> when promise \<open>i\<close> resolves;
  \<open>pLimit\<close> starts the cases in dataset order, a new one whenever fewer
  than \<open>concurrency\<close> are running, and throws a \<open>TypeError\<close> for a
  concurrency below 1.  The order in which the cases finish is not fixed by
  the program: it is the schedule, a list of case indices.  Case \<open>i\<close> can
  finish when it has been started and has not finished yet; an entry of
  the schedule for which this does not hold changes nothing.  The progress
  callback is kept as the list of its calls.
\<close>

record run_state =
  slots :: "TestCaseResult option list"
  completed :: nat
  progress :: "(nat \<times> nat \<times> string) list"

definition running :: "TestRunnerOptions \<Rightarrow> run_state \<Rightarrow> nat \<Rightarrow> bool" where
  "running opts st i =
     (i < length (slots st) \<and> slots st ! i = None \<and> int i < concurrency opts + int (completed st))"

text \<open>\<open>runTestCase\<close> from the return of \<open>executeTestCase\<close> on: the
  counter, the progress callback, and the result in its slot.\<close>

definition finish ::
  "TestRunnerOptions \<Rightarrow> (nat \<Rightarrow> case_env) \<Rightarrow> Dataset \<Rightarrow> string \<Rightarrow> run_state \<Rightarrow> nat \<Rightarrow> run_state" where
  "finish opts envs dataset promptA st i =
     (if running opts st i then
        (let testCase = testCases dataset ! i;
             result = fst (executeTestCase opts (envs i) testCase promptA)
         in st\<lparr>slots := (slots st)[i := Some result],
               completed := completed st + 1,
               progress := progress st @ [(completed st + 1, length (testCases dataset), name testCase)]\<rparr>)
      else st)"

text \<open>The cases that have finished: the slots that are filled.\<close>

definition filled :: "run_state \<Rightarrow> nat set" where
  "filled st = {i. i < length (slots st) \<and> slots st ! i \<noteq> None}"

definition initial_state :: "Dataset \<Rightarrow> run_state" where
  "initial_state dataset =
     \<lparr>slots = replicate (length (testCases dataset)) None, completed = 0, progress = []\<rparr>"

definition run_states ::
  "TestRunnerOptions \<Rightarrow> (nat \<Rightarrow> case_env) \<Rightarrow> Dataset \<Rightarrow> string \<Rightarrow> nat list \<Rightarrow> run_state" where
  "run_states opts envs dataset promptA schedule =
     foldl (finish opts envs dataset promptA) (initial_state dataset) schedule"

text \<open>
  \<open>run\<close>: the thrown \<open>TypeError\<close> of \<open>pLimit\<close>, or the version result
  once every slot is filled; \<open>None\<close> when the schedule ends with a case
  still running, that is, while \<open>Promise.all\<close> is pending.
\<close>

definition run ::
  "TestRunnerOptions \<Rightarrow> (nat \<Rightarrow> case_env) \<Rightarrow> nat list \<Rightarrow> Dataset \<Rightarrow> string \<Rightarrow> string
     \<Rightarrow> (js_error + VersionResult) option" where
  "run opts envs schedule dataset promptA promptB =
     (if concurrency opts < 1 then
        Some (Inl (Error ''Expected `concurrency` to be a number from 1 and up''))
      else
        (let st = run_states opts envs dataset promptA schedule
         in if list_all (\<lambda>slot. slot \<noteq> None) (slots st) then
              (let results = map the (slots st)
               in Some (Inr \<lparr>result_testCases = results, summary = calculateSummary results\<rparr>))
            else None))"

text \<open>
  A schedule in which every case finishes exactly once, each at a moment
  when \<open>pLimit\<close> has started it: the \<open>k\<close>-th case to finish is one of the
  first \<open>concurrency + k\<close>.
\<close>

fun started_in_turn :: "int \<Rightarrow> nat \<Rightarrow> nat list \<Rightarrow> bool" where
  "started_in_turn c k [] = True"
| "started_in_turn c k (i # rest) = (int i < c + int k \<and> started_in_turn c (k + 1) rest)"

definition completion_order :: "int \<Rightarrow> nat \<Rightarrow> nat list \<Rightarrow> bool" where
  "completion_order c n schedule =
     (distinct schedule \<and> length schedule = n \<and> list_all (\<lambda>i. i < n) schedule
      \<and> started_in_turn c 0 schedule)"

section \<open>Numbers of the statistical analyzer\<close>

text \<open>
  The analyzer computes with JavaScript numbers: binary64 values, the two
  infinities and \<open>NaN\<close>.  A finite number is \<open>Fin x\<close> for the real \<open>x\<close>
  it denotes.  Every arithmetic operation on finite numbers is the exact
  operation followed by rounding to the nearest binary64 value, a tie going
  to the even significand; a result of magnitude \<open>2\<^sup>1\<^sup>0\<^sup>2\<^sup>4\<close> or more is an
  infinity.  (The sign of a zero is not kept.)
\<close>

datatype jsnum = Fin real | PInf | NInf | NaN

definition round_half_even :: "real \<Rightarrow> int" where
  "round_half_even y =
     (let f = \<lfloor>y\<rfloor>; r = y - of_int f
      in if r < 1 / 2 then f else if r > 1 / 2 then f + 1 else if even f then f else f + 1)"

text \<open>Rounding of a real to binary64: 53 significant bits, the smallest
  exponent \<open>-1022\<close>.\<close>

definition binary64 :: "real \<Rightarrow> jsnum" where
  "binary64 x =
     (if x = 0 then Fin 0
      else
        (let e = max \<lfloor>log 2 \<bar>x\<bar>\<rfloor> (- 1022);
             u = 2 powr (of_int e - 52);
             y = u * of_int (round_half_even (x / u))
         in if \<bar>y\<bar> \<ge> 2 ^ 1024 then (if x > 0 then PInf else NInf) else Fin y))"

text \<open>A decimal literal of the source and the length of an array.\<close>

definition lit :: "real \<Rightarrow> jsnum" where
  "lit x = binary64 x"

definition of_length :: "'a list \<Rightarrow> jsnum" where
  "of_length xs = Fin (real (length xs))"

text \<open>The sign of a number (0 for a zero and for \<open>NaN\<close>) and the infinity
  of a sign (\<open>NaN\<close> for the sign 0).\<close>

definition jsign :: "jsnum \<Rightarrow> real" where
  "jsign v = (case v of Fin x \<Rightarrow> sgn x | PInf \<Rightarrow> 1 | NInf \<Rightarrow> - 1 | NaN \<Rightarrow> 0)"

definition inf_with :: "real \<Rightarrow> jsnum" where
  "inf_with s = (if s > 0 then PInf else if s < 0 then NInf else NaN)"

definition jneg :: "jsnum \<Rightarrow> jsnum" where
  "jneg v = (case v of Fin x \<Rightarrow> Fin (- x) | PInf \<Rightarrow> NInf | NInf \<Rightarrow> PInf | NaN \<Rightarrow> NaN)"

definition jabs :: "jsnum \<Rightarrow> jsnum" where
  "jabs v = (case v of Fin x \<Rightarrow> Fin \<bar>x\<bar> | PInf \<Rightarrow> PInf | NInf \<Rightarrow> PInf | NaN \<Rightarrow> NaN)"

fun jadd :: "jsnum \<Rightarrow> jsnum \<Rightarrow> jsnum" where
  "jadd NaN v = NaN"
| "jadd v NaN = NaN"
| "jadd (Fin x) (Fin y) = binary64 (x + y)"
| "jadd PInf NInf = NaN"
| "jadd NInf PInf = NaN"
| "jadd PInf v = PInf"
| "jadd v PInf = PInf"
| "jadd NInf v = NInf"
| "jadd v NInf = NInf"

definition jsub :: "jsnum \<Rightarrow> jsnum \<Rightarrow> jsnum" where
  "jsub v w = jadd v (jneg w)"

definition jmul :: "jsnum \<Rightarrow> jsnum \<Rightarrow> jsnum" where
  "jmul v w =
     (if v = NaN \<or> w = NaN then NaN
      else case (v, w) of
             (Fin x, Fin y) \<Rightarrow> binary64 (x * y)
           | _ \<Rightarrow> inf_with (jsign v * jsign w))"

text \<open>
  Division.  \<open>div0 v\<close> is the quotient of \<open>v\<close> by a zero; JavaScript's is
  \<open>ieee_div_zero\<close>.  It is a parameter of every function that divides, so
  that a statement can say of a result that no division by zero takes part
  in it: the result is then the same for every \<open>div0\<close>.
\<close>

definition ieee_div_zero :: "jsnum \<Rightarrow> jsnum" where
  "ieee_div_zero v = inf_with (jsign v)"

definition jdiv :: "(jsnum \<Rightarrow> jsnum) \<Rightarrow> jsnum \<Rightarrow> jsnum \<Rightarrow> jsnum" where
  "jdiv div0 v w =
     (if w = Fin 0 then div0 v
      else if v = NaN \<or> w = NaN then NaN
      else case (v, w) of
             (Fin x, Fin y) \<Rightarrow> binary64 (x / y)
           | (Fin x, _) \<Rightarrow> Fin 0
           | (_, Fin y) \<Rightarrow> inf_with (jsign v * sgn y)
           | _ \<Rightarrow> NaN)"

text \<open>Comparisons: every comparison with \<open>NaN\<close> is false.\<close>

fun jlt :: "jsnum \<Rightarrow> jsnum \<Rightarrow> bool" where
  "jlt NaN v = False"
| "jlt v NaN = False"
| "jlt (Fin x) (Fin y) = (x < y)"
| "jlt v NInf = False"
| "jlt NInf v = True"
| "jlt PInf v = False"
| "jlt v PInf = True"

definition jeq :: "jsnum \<Rightarrow> jsnum \<Rightarrow> bool" where
  "jeq v w = (v = w \<and> v \<noteq> NaN)"

definition jgt :: "jsnum \<Rightarrow> jsnum \<Rightarrow> bool" where
  "jgt v w = jlt w v"

definition jle :: "jsnum \<Rightarrow> jsnum \<Rightarrow> bool" where
  "jle v w = (jlt v w \<or> jeq v w)"

definition jge :: "jsnum \<Rightarrow> jsnum \<Rightarrow> bool" where
  "jge v w = jle w v"

text \<open>\<open>Math.min\<close>, \<open>Math.sqrt\<close>, \<open>Math.exp\<close> and \<open>Math.pow\<close>; the last
  two are taken as the rounded exact values.\<close>

definition jmin :: "jsnum \<Rightarrow> jsnum \<Rightarrow> jsnum" where
  "jmin v w = (if v = NaN \<or> w = NaN then NaN else if jlt v w then v else w)"

definition jsqrt :: "jsnum \<Rightarrow> jsnum" where
  "jsqrt v =
     (case v of
        Fin x \<Rightarrow> if x < 0 then NaN else binary64 (sqrt x)
      | PInf \<Rightarrow> PInf
      | NInf \<Rightarrow> NaN
      | NaN \<Rightarrow> NaN)"

definition jexp :: "jsnum \<Rightarrow> jsnum" where
  "jexp v = (case v of Fin x \<Rightarrow> binary64 (exp x) | PInf \<Rightarrow> PInf | NInf \<Rightarrow> Fin 0 | NaN \<Rightarrow> NaN)"

definition odd_integer :: "jsnum \<Rightarrow> bool" where
  "odd_integer v = (case v of Fin y \<Rightarrow> y = of_int \<lfloor>y\<rfloor> \<and> odd \<lfloor>y\<rfloor> | _ \<Rightarrow> False)"

definition jpow :: "jsnum \<Rightarrow> jsnum \<Rightarrow> jsnum" where
  "jpow b e =
     (if e = NaN then NaN
      else if e = Fin 0 then Fin 1
      else case b of
             NaN \<Rightarrow> NaN
           | PInf \<Rightarrow> if jgt e (Fin 0) then PInf else Fin 0
           | NInf \<Rightarrow> if jgt e (Fin 0) then (if odd_integer e then NInf else PInf) else Fin 0
           | Fin x \<Rightarrow>
               if x = 0 then (if jgt e (Fin 0) then Fin 0 else PInf)
               else (case e of
                       PInf \<Rightarrow> if \<bar>x\<bar> > 1 then PInf else if \<bar>x\<bar> = 1 then NaN else Fin 0
                     | NInf \<Rightarrow> if \<bar>x\<bar> > 1 then Fin 0 else if \<bar>x\<bar> = 1 then NaN else PInf
                     | Fin y \<Rightarrow>
                         if x > 0 then binary64 (x powr y)
                         else if y = of_int \<lfloor>y\<rfloor> then
                           binary64 ((if even \<lfloor>y\<rfloor> then 1 else - 1) * (\<bar>x\<bar> powr y))
                         else NaN
                     | NaN \<Rightarrow> NaN))"

text \<open>
  \<open>Number(v.toFixed(d))\<close>: the decimal with \<open>d\<close> digits nearest to the
  number, a tie going away from zero, read back as a number; \<open>NaN\<close> and the
  infinities print as themselves, and so does a number from \<open>10\<^sup>2\<^sup>1\<close> on.
\<close>

definition toFixed_number :: "nat \<Rightarrow> jsnum \<Rightarrow> jsnum" where
  "toFixed_number d v =
     (case v of
        Fin x \<Rightarrow>
          if \<bar>x\<bar> \<ge> 10 ^ 21 then Fin x
          else binary64 (sgn x * of_int \<lfloor>\<bar>x\<bar> * 10 ^ d + 1 / 2\<rfloor> / 10 ^ d)
      | _ \<Rightarrow> v)"

section \<open>Statistical comparison (core/statistical-analyzer.ts)\<close>

record TTestResult =
  meanA :: jsnum
  meanB :: jsnum
  difference :: jsnum
  pValue :: jsnum
  significant :: bool
  confidenceInterval :: "jsnum \<times> jsnum"
  sampleSizeA :: nat
  sampleSizeB :: nat

text \<open>The fields \<open>latency\<close>, \<open>cost\<close> and \<open>tokens\<close> of a
  \<open>StatisticalComparison\<close>.\<close>

record StatisticalComparison =
  latency_test :: TTestResult
  cost_test :: TTestResult
  tokens_test :: TTestResult

text \<open>
  The functions of the package simple-statistics that \<open>tTest\<close> calls.
  \<open>sum\<close> is the Kahan-Babuska summation: it starts from the first value
  with a correction of 0, and for each further value \<open>x\<close> adds to the
  correction the low-order part lost in \<open>sum + x\<close>; the result is the last
  sum plus the correction.  \<open>mean\<close> throws on an empty sample.
  \<open>standardDeviation\<close> is 0 on one value and otherwise the square root of
  the mean of the squared deviations, which are accumulated from 0;
  \<open>tTest\<close> calls it only on samples of more than one value, where it does
  not throw.
\<close>

fun kahan :: "jsnum \<Rightarrow> jsnum \<Rightarrow> jsnum list \<Rightarrow> jsnum" where
  "kahan s correction [] = jadd s correction"
| "kahan s correction (x # xs) =
     (let transition = jadd s x;
          correction' =
            (if jge (jabs s) (jabs x) then jadd correction (jadd (jsub s transition) x)
             else jadd correction (jadd (jsub x transition) s))
      in kahan transition correction' xs)"

definition ss_sum :: "jsnum list \<Rightarrow> jsnum" where
  "ss_sum x = (case x of [] \<Rightarrow> Fin 0 | x0 # xs \<Rightarrow> kahan x0 (Fin 0) xs)"

definition ss_mean :: "(jsnum \<Rightarrow> jsnum) \<Rightarrow> jsnum list \<Rightarrow> js_error + jsnum" where
  "ss_mean div0 x =
     (if length x = 0 then Inl (Error ''mean requires at least one data point'')
      else Inr (jdiv div0 (ss_sum x) (of_length x)))"

definition ss_standardDeviation :: "(jsnum \<Rightarrow> jsnum) \<Rightarrow> jsnum list \<Rightarrow> jsnum" where
  "ss_standardDeviation div0 x =
     (if length x = 1 then Fin 0
      else
        (let meanValue = jdiv div0 (ss_sum x) (of_length x);
             deviations =
               foldl (\<lambda>acc v. let tempValue = jsub v meanValue in jadd acc (jmul tempValue tempValue))
                 (Fin 0) x
         in jsqrt (jdiv div0 deviations (of_length x))))"

text \<open>\<open>erf\<close>: the approximation of Abramowitz and Stegun.\<close>

definition erf :: "(jsnum \<Rightarrow> jsnum) \<Rightarrow> jsnum \<Rightarrow> jsnum" where
  "erf div0 x =
     (let a1 = lit 0.254829592; a2 = jneg (lit 0.284496736); a3 = lit 1.421413741;
          a4 = jneg (lit 1.453152027); a5 = lit 1.061405429; p = lit 0.3275911;
          sign = (if jlt x (Fin 0) then jneg (Fin 1) else Fin 1);
          absX = jabs x;
          t = jdiv div0 (Fin 1) (jadd (Fin 1) (jmul p absX));
          y = jsub (Fin 1)
                (jmul
                   (jmul
                      (jadd (jmul (jadd (jmul (jadd (jmul (jadd (jmul a5 t) a4) t) a3) t) a2) t) a1)
                      t)
                   (jexp (jmul (jneg absX) absX)))
      in jmul sign y)"

text \<open>
  The loop of \<open>betaContinuedFraction\<close> from iteration \<open>m\<close> on, with the
  values of \<open>am\<close>, \<open>bm\<close>, \<open>az\<close> and \<open>bz\<close> before it; the result is the
  \<open>az\<close> with which the loop ends, by the \<open>break\<close> or after iteration 200.
\<close>

function betaLoop ::
  "(jsnum \<Rightarrow> jsnum) \<Rightarrow> jsnum \<Rightarrow> jsnum \<Rightarrow> jsnum \<Rightarrow> nat \<Rightarrow> jsnum \<Rightarrow> jsnum \<Rightarrow> jsnum \<Rightarrow> jsnum \<Rightarrow> jsnum" where
  "betaLoop div0 x a b m am bm az bz =
     (if m \<le> 200 then
        (let epsilon = lit (1 / 10 ^ 10);
             qab = jadd a b; qap = jadd a (Fin 1); qam = jsub a (Fin 1);
             m2 = jmul (Fin 2) (Fin (real m));
             d = jdiv div0 (jmul (jmul (Fin (real m)) (jsub b (Fin (real m)))) x)
                   (jmul (jadd qam m2) (jadd a m2));
             ap = jadd az (jmul d am);
             bp = jadd bz (jmul d bm);
             d' = jdiv div0
                    (jmul (jmul (jneg (jadd a (Fin (real m)))) (jadd qab (Fin (real m)))) x)
                    (jmul (jadd a m2) (jadd qap m2));
             app = jadd ap (jmul d' az);
             bpp = jadd bp (jmul d' bz);
             aold = az;
             am' = jdiv div0 ap bpp;
             bm' = jdiv div0 bp bpp;
             az' = jdiv div0 app bpp
         in if jlt (jabs (jsub az' aold)) (jmul epsilon (jabs az')) then az'
            else betaLoop div0 x a b (m + 1) am' bm' az' (Fin 1))
      else az)"
  by pat_completeness auto
termination
  by (relation "measure (\<lambda>(div0, x, a, b, m, am, bm, az, bz). 201 - m)") auto

definition betaContinuedFraction :: "(jsnum \<Rightarrow> jsnum) \<Rightarrow> jsnum \<Rightarrow> jsnum \<Rightarrow> jsnum \<Rightarrow> jsnum" where
  "betaContinuedFraction div0 x a b =
     (let qab = jadd a b; qap = jadd a (Fin 1);
          bz = jsub (Fin 1) (jdiv div0 (jmul qab x) qap);
          az = betaLoop div0 x a b 1 (Fin 1) (Fin 1) (Fin 1) bz
      in jdiv div0 (jmul (jmul az (jpow x a)) (jpow (jsub (Fin 1) x) b)) a)"

definition incompleteBeta :: "(jsnum \<Rightarrow> jsnum) \<Rightarrow> jsnum \<Rightarrow> jsnum \<Rightarrow> jsnum \<Rightarrow> jsnum" where
  "incompleteBeta div0 x a b =
     (if jle x (Fin 0) then Fin 0
      else if jge x (Fin 1) then Fin 1
      else if jlt x (jdiv div0 (jadd a (Fin 1)) (jadd (jadd a b) (Fin 2))) then
        betaContinuedFraction div0 x a b
      else jsub (Fin 1) (betaContinuedFraction div0 (jsub (Fin 1) x) b a))"

definition calculatePValue :: "(jsnum \<Rightarrow> jsnum) \<Rightarrow> jsnum \<Rightarrow> jsnum \<Rightarrow> jsnum" where
  "calculatePValue div0 tStat df =
     (if jeq tStat (Fin 0) then Fin 1
      else if jle df (Fin 0) then Fin 1
      else if jgt df (Fin 30) then
        (let z = tStat;
             p = jmul (lit 0.5) (jadd (Fin 1) (erf div0 (jdiv div0 z (jsqrt (Fin 2)))))
         in jmul (Fin 2) (jsub (Fin 1) p))
      else
        (let x = jdiv div0 df (jadd df (jmul tStat tStat));
             p = jmul (lit 0.5) (incompleteBeta div0 x (jdiv div0 df (Fin 2)) (lit 0.5))
         in jmin (jmul (Fin 2) p) (Fin 1)))"

text \<open>The table of \<open>getTCriticalValue\<close>, for 1 to 30 degrees of freedom.\<close>

definition criticalValues :: "real list" where
  "criticalValues =
     [12.706, 4.303, 3.182, 2.776, 2.571,
      2.447, 2.365, 2.306, 2.262, 2.228,
      2.201, 2.179, 2.160, 2.145, 2.131,
      2.120, 2.110, 2.101, 2.093, 2.086,
      2.080, 2.074, 2.069, 2.064, 2.060,
      2.056, 2.052, 2.048, 2.045, 2.042]"

definition criticalValue_at :: "int \<Rightarrow> jsnum" where
  "criticalValue_at k = lit (criticalValues ! nat (k - 1))"

text \<open>
  \<open>df in criticalValues\<close> holds of the integers from 1 to 30.  For \<open>NaN\<close>
  and \<open>-Infinity\<close> that test and the test \<open>lower >= 1\<close> are false
  (\<open>Infinity\<close> is above 100), so the last line returns 1.96.
\<close>

definition getTCriticalValue :: "jsnum \<Rightarrow> jsnum" where
  "getTCriticalValue df =
     (if jgt df (Fin 100) then lit 1.96
      else
        (case df of
           Fin x \<Rightarrow>
             if x = of_int \<lfloor>x\<rfloor> \<and> 1 \<le> x \<and> x \<le> 30 then criticalValue_at \<lfloor>x\<rfloor>
             else
               (let lower = \<lfloor>x\<rfloor>; upper = \<lceil>x\<rceil>
                in if lower \<ge> 1 \<and> upper \<le> 30 then
                     (let t1 = criticalValue_at lower; t2 = criticalValue_at upper
                      in jadd t1 (jmul (jsub t2 t1) (jsub df (Fin (of_int lower)))))
                   else lit 1.96)
         | _ \<Rightarrow> lit 1.96))"

text \<open>The values \<open>tTest\<close> computes on its way, as functions of the samples:
  the guarded standard deviation, the pooled standard error, the t-statistic
  and the degrees of freedom.\<close>

definition stdDev :: "(jsnum \<Rightarrow> jsnum) \<Rightarrow> jsnum list \<Rightarrow> jsnum" where
  "stdDev div0 sample = (if length sample > 1 then ss_standardDeviation div0 sample else Fin 0)"

definition standardError :: "(jsnum \<Rightarrow> jsnum) \<Rightarrow> jsnum list \<Rightarrow> jsnum list \<Rightarrow> jsnum" where
  "standardError div0 sampleA sampleB =
     (let seA = jdiv div0 (stdDev div0 sampleA) (jsqrt (of_length sampleA));
          seB = jdiv div0 (stdDev div0 sampleB) (jsqrt (of_length sampleB))
      in jsqrt (jadd (jmul seA seA) (jmul seB seB)))"

definition tStatistic :: "(jsnum \<Rightarrow> jsnum) \<Rightarrow> jsnum \<Rightarrow> jsnum \<Rightarrow> jsnum" where
  "tStatistic div0 diff se = (if jgt se (Fin 0) then jdiv div0 diff se else Fin 0)"

definition degreesOfFreedom :: "(jsnum \<Rightarrow> jsnum) \<Rightarrow> jsnum list \<Rightarrow> jsnum list \<Rightarrow> jsnum" where
  "degreesOfFreedom div0 sampleA sampleB =
     (let stdDevA = stdDev div0 sampleA; stdDevB = stdDev div0 sampleB;
          nA = of_length sampleA; nB = of_length sampleB
      in if jgt stdDevA (Fin 0) \<and> jgt stdDevB (Fin 0) then
           (let varA = jmul stdDevA stdDevA;
                varB = jmul stdDevB stdDevB;
                num = jpow (jadd (jdiv div0 varA nA) (jdiv div0 varB nB)) (Fin 2);
                den = jadd (jdiv div0 (jmul varA varA) (jmul (jmul nA nA) (jsub nA (Fin 1))))
                        (jdiv div0 (jmul varB varB) (jmul (jmul nB nB) (jsub nB (Fin 1))))
            in if jgt den (Fin 0) then jdiv div0 num den else jsub (jadd nA nB) (Fin 2))
         else jsub (jadd nA nB) (Fin 2))"

definition tTest :: "(jsnum \<Rightarrow> jsnum) \<Rightarrow> jsnum list \<Rightarrow> jsnum list \<Rightarrow> js_error + TTestResult" where
  "tTest div0 sampleA sampleB =
     (case ss_mean div0 sampleA of
        Inl e \<Rightarrow> Inl e
      | Inr mA \<Rightarrow>
          (case ss_mean div0 sampleB of
             Inl e \<Rightarrow> Inl e
           | Inr mB \<Rightarrow>
               (let diff = jsub mB mA;
                    se = standardError div0 sampleA sampleB;
                    t = tStatistic div0 diff se;
                    df = degreesOfFreedom div0 sampleA sampleB;
                    p = calculatePValue div0 (jabs t) df;
                    criticalValue = getTCriticalValue df;
                    marginOfError = jmul criticalValue se
                in Inr \<lparr>meanA = toFixed_number 4 mA,
                        meanB = toFixed_number 4 mB,
                        difference = toFixed_number 4 diff,
                        pValue = toFixed_number 6 p,
                        significant = jlt p (lit 0.05),
                        confidenceInterval =
                          (toFixed_number 4 (jsub diff marginOfError),
                           toFixed_number 4 (jadd diff marginOfError)),
                        sampleSizeA = length sampleA,
                        sampleSizeB = length sampleB\<rparr>)))"

text \<open>\<open>compareVersions\<close>: the three tests in the order of the object
  literal; the first one that throws ends the call.\<close>

definition compareVersions ::
  "(jsnum \<Rightarrow> jsnum) \<Rightarrow> VersionResult \<Rightarrow> VersionResult \<Rightarrow> js_error + StatisticalComparison" where
  "compareVersions div0 resultA resultB =
     (let successfulA = filter success (result_testCases resultA);
          successfulB = filter success (result_testCases resultB);
          latencyA = map (\<lambda>tc. Fin (latency tc)) successfulA;
          latencyB = map (\<lambda>tc. Fin (latency tc)) successfulB;
          costA = map (\<lambda>tc. Fin (cost tc)) successfulA;
          costB = map (\<lambda>tc. Fin (cost tc)) successfulB;
          tokensA = map (\<lambda>tc. jadd (Fin (inputTokens tc)) (Fin (outputTokens tc))) successfulA;
          tokensB = map (\<lambda>tc. jadd (Fin (inputTokens tc)) (Fin (outputTokens tc))) successfulB
      in case tTest div0 latencyA latencyB of
           Inl e \<Rightarrow> Inl e
         | Inr l \<Rightarrow>
             (case tTest div0 costA costB of
                Inl e \<Rightarrow> Inl e
              | Inr c \<Rightarrow>
                  (case tTest div0 tokensA tokensB of
                     Inl e \<Rightarrow> Inl e
                   | Inr t \<Rightarrow> Inr \<lparr>latency_test = l, cost_test = c, tokens_test = t\<rparr>)))"

section \<open>Example repositories\<close>

text \<open>
  A repository with one commit and nothing staged, and the same repository
  with one prompt file staged.  \<open>example_parse\<close> reads the one object of the
  store.
\<close>

definition head_digest :: string where
  "head_digest = ''3a7bd3e2360a3d29eea436fcfb7e44c735d117c42d1c1835420b6b9942dd4f1b''"

definition first_commit :: Commit where
  "first_commit =
     \<lparr>tree = [(''prompts/a.txt'', ''9f86d081884c7d659a2feaa0c55ad015a3bf4f1b2b0b822cd15d6c15b0f00a08'')],
      parent = None,
      message = ''First'',
      timestamp = ''2026-01-01T00:00:00.000Z''\<rparr>"

definition example_parse :: "string \<Rightarrow> stored_object option" where
  "example_parse text = (if text = ''<first commit>'' then Some (CommitObject first_commit) else None)"

definition repo_clean :: Repository where
  "repo_clean =
     \<lparr>pvcDirExists = True,
      indexFile = \<lparr>staged = []\<rparr>,
      headFile = Some head_digest,
      objectFiles = Map.empty(getObjectPath head_digest \<mapsto> ''<first commit>'')\<rparr>"

definition repo_staged :: Repository where
  "repo_staged =
     repo_clean\<lparr>indexFile :=
       \<lparr>staged = [(''prompts/a.txt'', \<lparr>hash = ''0a1b2c'', path = ''prompts/a.txt''\<rparr>)]\<rparr>\<rparr>"


section \<open>Example runs\<close>

text \<open>The options and the providers of the runner's retry tests: one that
  times out twice and then answers, and one that never answers.\<close>

definition example_options :: TestRunnerOptions where
  "example_options = \<lparr>runner_model = ''gpt-4'', concurrency = 2, maxRetries = 2, apiKey = ''sk-test''\<rparr>"

definition example_response :: SdkResponse where
  "example_response =
     \<lparr>sdk_id = ''resp'',
      sdk_choices = [\<lparr>sdk_content = Some ''OK'', sdk_finish_reason = ''stop''\<rparr>],
      sdk_usage = Some \<lparr>sdk_prompt_tokens = Some 10, sdk_completion_tokens = Some 5,
                        sdk_total_tokens = Some 15\<rparr>\<rparr>"

definition sdk_fails_twice :: "nat \<Rightarrow> ChatCompletionRequest \<Rightarrow> sdk_outcome" where
  "sdk_fails_twice k request = (if k < 2 then SdkThrewError ''Timeout'' else SdkReturned example_response)"

definition sdk_always_fails :: "nat \<Rightarrow> ChatCompletionRequest \<Rightarrow> sdk_outcome" where
  "sdk_always_fails k request = SdkThrewError ''Persistent Error''"

definition example_case :: "string \<Rightarrow> string \<Rightarrow> TestCase" where
  "example_case n q = \<lparr>name = n, inputs = [(''query'', q)], expectedOutput = None\<rparr>"

definition example_dataset :: Dataset where
  "example_dataset =
     \<lparr>testCases = [example_case ''Test 1'' ''hello'', example_case ''Test 2'' ''world'',
                   example_case ''Test 3'' ''again'']\<rparr>"

text \<open>Every case of the dataset runs from time 0 to time 3250, the second
  one against the provider that never answers.\<close>

definition example_envs :: "nat \<Rightarrow> case_env" where
  "example_envs i = client_env (if i = 1 then sdk_always_fails else sdk_fails_twice) 0 3250"

section \<open>Example version results\<close>

text \<open>A version in which the only case failed, and one in which it
  succeeded.\<close>

definition failed_result :: TestCaseResult where
  "failed_result =
     \<lparr>result_name = ''Test 1'', success = False, latency = 3250, inputTokens = 0,
      outputTokens = 0, cost = 0, error = Some ''API request failed: Persistent Error'',
      output_text = None\<rparr>"

definition ok_result :: TestCaseResult where
  "ok_result =
     \<lparr>result_name = ''Test 1'', success = True, latency = 120, inputTokens = 15,
      outputTokens = 25, cost = 0.0015, error = None, output_text = Some ''OK''\<rparr>"

definition version_failed :: VersionResult where
  "version_failed = \<lparr>result_testCases = [failed_result], summary = calculateSummary [failed_result]\<rparr>"

definition version_ok :: VersionResult where
  "version_ok = \<lparr>result_testCases = [ok_result], summary = calculateSummary [ok_result]\<rparr>"



section \<open>Properties of the commit command\<close>

lemma trim_Nil [simp]: "trim [] = []"
  by (simp add: trim_def)

lemma commitCommand_rejected:
  assumes "trim msg = [] \<or> staged (indexFile repo) = []"
  shows "commitCommand hashContent JSON_stringify now repo msg =
           ((if \<not> pvcDirExists repo then 2 else if trim msg = [] then 1 else 3), repo)"
  using assms
  by (auto simp add: commitCommand_def isInitialized_def readIndex_def Object_keys_def Let_def)

text \<open>
  C1.  A commit with an empty or white-space-only message, or with nothing
  staged, fails and changes nothing: outside a repository the exit code is 2,
  inside one it is 1 for the missing message and 3 for the empty staging
  index, and in every case the repository after the call (HEAD file, staging
  index, objects) is the repository before it.
\<close>

theorem C1_commit_failure_is_atomic:
  assumes "trim msg = [] \<or> staged (indexFile repo) = []"
  shows "fst (commitCommand hashContent JSON_stringify now repo msg) \<noteq> 0
       \<and> fst (commitCommand hashContent JSON_stringify now repo msg)
           = (if \<not> pvcDirExists repo then 2 else if trim msg = [] then 1 else 3)
       \<and> snd (commitCommand hashContent JSON_stringify now repo msg) = repo
       \<and> getHead (snd (commitCommand hashContent JSON_stringify now repo msg)) = getHead repo
       \<and> readIndex (snd (commitCommand hashContent JSON_stringify now repo msg)) = readIndex repo"
  using commitCommand_rejected [OF assms, of hashContent JSON_stringify now]
  by simp

text \<open>The two failing calls of the commit tests: a white-space message on a
  repository with a staged file, and a message on a repository with nothing
  staged.\<close>

theorem C1_commit_failure_witness:
  "trim ''  '' = []
   \<and> commitCommand (\<lambda>content. ''77aa'') message ''2026-01-01T00:00:00.000Z'' repo_staged ''  ''
       = (1, repo_staged)
   \<and> staged (indexFile repo_clean) = []
   \<and> commitCommand (\<lambda>content. ''77aa'') message ''2026-01-01T00:00:00.000Z'' repo_clean ''Empty commit''
       = (3, repo_clean)"
proof -
  have ws: "trim ''  '' = []"
    by (simp add: trim_def isWhiteSpace_def)
  have msg: "trim ''Empty commit'' \<noteq> []"
    by (simp add: trim_def isWhiteSpace_def)
  have empty: "staged (indexFile repo_clean) = []"
    by (simp add: repo_clean_def)
  have init: "pvcDirExists repo_staged" "pvcDirExists repo_clean"
    by (simp_all add: repo_staged_def repo_clean_def)
  show ?thesis
    using C1_commit_failure_is_atomic
            [of "''  ''" repo_staged "\<lambda>content. ''77aa''" message "''2026-01-01T00:00:00.000Z''"]
          C1_commit_failure_is_atomic
            [of "''Empty commit''" repo_clean "\<lambda>content. ''77aa''" message "''2026-01-01T00:00:00.000Z''"]
          ws msg empty init
    by (simp add: prod_eq_iff)
qed

lemma map_of_buildTree:
  "''__proto__'' \<notin> set ps \<Longrightarrow>
   map_of (buildTree st ps acc) k =
     (if k \<in> set ps \<and> map_of st k \<noteq> None then map_option hash (map_of st k) else map_of acc k)"
proof (induction ps arbitrary: acc)
  case Nil
  then show ?case by simp
next
  case (Cons p ps)
  then show ?case
    by (auto simp add: own_property_def assign_property_def update_conv' split: option.splits)
qed

lemma tree_buildCommit:
  assumes "''__proto__'' \<notin> set (Object_keys (staged (indexFile repo)))"
  shows "own_property (tree (buildCommit now repo msg)) p
           = map_option hash (own_property (staged (indexFile repo)) p)"
proof -
  have "p \<in> set (map fst (staged (indexFile repo))) \<longleftrightarrow> map_of (staged (indexFile repo)) p \<noteq> None"
    by (metis map_of_eq_None_iff set_map)
  then show ?thesis
    using assms map_of_buildTree [of "map fst (staged (indexFile repo))" "staged (indexFile repo)" "[]" p]
    by (auto simp add: buildCommit_def own_property_def Object_keys_def readIndex_def Let_def)
qed

lemma commitCommand_accepted:
  assumes "pvcDirExists repo" "trim msg \<noteq> []" "staged (indexFile repo) \<noteq> []"
  shows "commitCommand hashContent JSON_stringify now repo msg =
     (0, writeIndex ((readIndex repo)\<lparr>staged := []\<rparr>)
           (setHead (hashContent (JSON_stringify (buildCommit now repo msg)))
              (writeObject (hashContent (JSON_stringify (buildCommit now repo msg)))
                 (JSON_stringify (buildCommit now repo msg)) repo)))"
  using assms
  by (auto simp add: commitCommand_def isInitialized_def readIndex_def Object_keys_def Let_def)

text \<open>
  In a repository with a non-empty staging index none of whose paths is
  the accessor name \<open>__proto__\<close>, a commit with a non-empty message
  succeeds with exit code 0.  The commit it builds has a tree that holds,
  for every path, the blob digest staged under that path and nothing else,
  and its parent is the HEAD read before the call.  The serialized commit is
  stored under its digest, the HEAD file holds that digest (read back
  trimmed, which leaves a hexadecimal digest as it is) and the staging index
  is empty.
\<close>

lemma commitCommand_success:
  fixes hashContent :: "string \<Rightarrow> string" and JSON_stringify :: "Commit \<Rightarrow> string"
    and now :: string and repo :: Repository and msg :: string
  defines "commit \<equiv> buildCommit now repo msg"
  defines "digest \<equiv> hashContent (JSON_stringify (buildCommit now repo msg))"
  defines "after \<equiv> snd (commitCommand hashContent JSON_stringify now repo msg)"
  assumes "pvcDirExists repo" and "trim msg \<noteq> []" and "staged (indexFile repo) \<noteq> []"
    and "''__proto__'' \<notin> set (Object_keys (staged (indexFile repo)))"
  shows "fst (commitCommand hashContent JSON_stringify now repo msg) = 0
       \<and> (\<forall>p. own_property (tree commit) p = map_option hash (own_property (staged (indexFile repo)) p))
       \<and> parent commit = getHead repo
       \<and> readObject after digest = Inr (JSON_stringify commit)
       \<and> headFile after = Some digest
       \<and> getHead after = Some (trim digest)
       \<and> staged (readIndex after) = []"
  using assms(4-6) tree_buildCommit [OF assms(7), of now msg]
  unfolding commit_def digest_def after_def
  by (simp add: commitCommand_accepted buildCommit_def writeIndex_def setHead_def
        writeObject_def readObject_def readIndex_def getHead_def Let_def)


section \<open>Resolving a commit reference\<close>

lemma getHead_repo_clean: "getHead repo_clean = Some head_digest"
  by (simp add: getHead_def repo_clean_def head_digest_def trim_def isWhiteSpace_def)

lemma diff_getCommit_head:
  "diff_getCommit example_parse repo_clean head_digest = Inr None"
  by (simp add: diff_getCommit_def readObject_def repo_clean_def example_parse_def first_commit_def)

text \<open>
  C3.  In the example repository HEAD is \<open>head_digest\<close>, and \<open>3a7bd3e\<close> is
  the short hash that the commit command prints for it.
  \<open>Repository.resolveCommit\<close> resolves \<open>HEAD\<close> and the full digest, but not
  the short hash: it looks the token up as an object name and never walks
  the parent chain.  The \<open>resolveCommit\<close> of the diff command walks the chain
  and finds the commit by its prefix, but rejects \<open>HEAD\<close>.
\<close>

theorem C3_short_hash_not_resolved:
  "getHead repo_clean = Some head_digest
   \<and> startsWith head_digest ''3a7bd3e''
   \<and> resolveCommit example_parse repo_clean ''HEAD'' = Some head_digest
   \<and> resolveCommit example_parse repo_clean head_digest = Some head_digest
   \<and> resolveCommit example_parse repo_clean ''3a7bd3e'' = None
   \<and> diff_resolveCommit example_parse repo_clean ''3a7bd3e'' = Some (Inr head_digest)
   \<and> diff_resolveCommit example_parse repo_clean ''HEAD'' = Some (Inl (Error ''Invalid commit: HEAD''))"
proof -
  have prefix: "startsWith head_digest ''3a7bd3e''"
    by (simp add: startsWith_def head_digest_def)
  have no_head: "\<not> startsWith head_digest ''HEAD''"
    by (simp add: startsWith_def head_digest_def)
  have nonempty: "head_digest \<noteq> []"
    by (simp add: head_digest_def)
  have full: "getCommit example_parse repo_clean head_digest = Some first_commit"
    by (simp add: getCommit_def readObject_def repo_clean_def example_parse_def)
  have short: "getCommit example_parse repo_clean ''3a7bd3e'' = None"
    by (simp add: getCommit_def readObject_def repo_clean_def getObjectPath_def head_digest_def)
  have word: "getCommit example_parse repo_clean ''HEAD'' = None"
    by (simp add: getCommit_def readObject_def repo_clean_def getObjectPath_def head_digest_def)
  have long: "7 \<le> length head_digest"
    by (simp add: head_digest_def)
  have walk_short: "diff_walk (diff_getCommit example_parse repo_clean) ''3a7bd3e'' (Some head_digest)
                      = Some (Inr head_digest)"
    using prefix nonempty by (subst diff_walk.simps) simp
  have walk_end: "diff_walk (diff_getCommit example_parse repo_clean) ''HEAD'' None
                      = Some (Inl (Error ''Invalid commit: HEAD''))"
    by (subst diff_walk.simps) simp
  have walk_head: "diff_walk (diff_getCommit example_parse repo_clean) ''HEAD'' (Some head_digest)
                      = Some (Inl (Error ''Invalid commit: HEAD''))"
    using no_head nonempty walk_end
    by (subst diff_walk.simps) (simp add: diff_getCommit_head)
  show ?thesis
    using prefix nonempty full short word long walk_short walk_head
    by (simp add: resolveCommit_def diff_resolveCommit_def getHead_repo_clean)
qed

section \<open>Properties of template rendering\<close>

lemma matchToken_token:
  assumes "key \<noteq> []" and "list_all isWordChar key"
  shows "matchToken (''{{'' @ key @ ''}}'' @ rest) = Some (key, rest)"
proof -
  have close: "\<not> isWordChar CHR ''}''"
    by (simp add: isWordChar_def)
  have "takeWhile isWordChar (key @ ''}}'' @ rest) = key"
    using assms(2) close by (simp add: takeWhile_append2 list_all_iff)
  moreover have "dropWhile isWordChar (key @ ''}}'' @ rest) = ''}}'' @ rest"
    using assms(2) close by (simp add: dropWhile_append2 list_all_iff)
  ultimately show ?thesis
    using assms(1) by (simp add: matchToken_def)
qed

text \<open>A token is replaced by the own property of that name, and a token
  whose name is neither an own property nor a property of
  \<open>Object.prototype\<close> by the empty text; what follows is rendered on.\<close>

lemma replaceVariables_token:
  assumes "key \<noteq> []" and "list_all isWordChar key"
  shows "replaceVariables (''{{'' @ key @ ''}}'' @ rest) obj
           = replacement obj key @ replaceVariables rest obj"
  using matchToken_token [OF assms, of rest] by simp

lemma replacement_own: "own_property obj key = Some v \<Longrightarrow> replacement obj key = v"
  by (simp add: replacement_def get_property_def)

lemma replacement_missing:
  "own_property obj key = None \<Longrightarrow> key \<notin> set (Object_keys Object_prototype)
     \<Longrightarrow> replacement obj key = []"
  by (simp add: replacement_def get_property_def own_property_def Object_keys_def
        map_of_eq_None_iff [THEN iffD2])

text \<open>
  C8.  The two renderings of the specification come out as it says.  A token
  that names a property every plain object inherits, here \<open>constructor\<close>, is
  not unmatched for \<open>inputs[key] !== undefined\<close>: with no inputs at all it
  is replaced with the source text of the inherited function, not with the
  empty text.
\<close>

theorem C8_inherited_name_is_rendered:
  "replaceVariables ''Hi {{x}}'' [] = ''Hi ''
   \<and> replaceVariables ''Hi {{x}}'' [(''x'', ''Bob'')] = ''Hi Bob''
   \<and> own_property [] ''constructor'' = (None :: string option)
   \<and> replaceVariables ''Hi {{constructor}}'' [] = ''Hi function Object() { [native code] }''"
  by (simp add: matchToken_def isWordChar_def replacement_def get_property_def own_property_def
        Object_prototype_def nativeFunction_def)

section \<open>Properties of the retry loop\<close>

lemma attemptLoop_resolved:
  assumes "createChatCompletion env j (chatRequest opts prompt) = Resolved response"
    and "int j \<le> maxRetries opts"
    and "\<forall>k. a \<le> k \<and> k < j \<longrightarrow> (\<exists>msg. createChatCompletion env k (chatRequest opts prompt) = Rejected msg)"
    and "a \<le> j"
  shows "attemptLoop opts env testCase prompt a lastError events =
           (successResult opts env testCase response,
            events @ concat (map (backoff (chatRequest opts prompt)) [a..<j])
              @ [ProviderCall j (chatRequest opts prompt)])"
  using assms(3,4)
proof (induction "j - a" arbitrary: a lastError events)
  case 0
  then have "a = j" by simp
  then show ?case using assms(1,2) by simp
next
  case (Suc d)
  then have lt: "a < j" and d: "d = j - Suc a" by simp_all
  from Suc.prems lt obtain msg where
    rej: "createChatCompletion env a (chatRequest opts prompt) = Rejected msg" by auto
  have ih: "attemptLoop opts env testCase prompt (Suc a) (Some msg)
              (events @ backoff (chatRequest opts prompt) a) =
           (successResult opts env testCase response,
            (events @ backoff (chatRequest opts prompt) a)
              @ concat (map (backoff (chatRequest opts prompt)) [Suc a..<j])
              @ [ProviderCall j (chatRequest opts prompt)])"
    using Suc.hyps(1) [OF d] Suc.prems lt by simp
  have range: "[a..<j] = a # [Suc a..<j]"
    using lt by (simp add: upt_conv_Cons)
  from lt assms(2) have "int a < maxRetries opts" by simp
  then show ?case
    using rej ih range by (simp add: backoff_def)
qed

lemma attemptLoop_rejected:
  assumes "int m = maxRetries opts"
    and "\<forall>k. a \<le> k \<and> k \<le> m \<longrightarrow> createChatCompletion env k (chatRequest opts prompt) = Rejected (msgs k)"
    and "a \<le> m"
  shows "attemptLoop opts env testCase prompt a lastError events =
           (failureResult env testCase (Some (msgs m)),
            events @ concat (map (backoff (chatRequest opts prompt)) [a..<m])
              @ [ProviderCall m (chatRequest opts prompt)])"
  using assms(2,3)
proof (induction "m - a" arbitrary: a lastError events)
  case 0
  then have "a = m" by simp
  then show ?case using assms(1) 0 by simp
next
  case (Suc d)
  then have lt: "a < m" and d: "d = m - Suc a" by simp_all
  have rej: "createChatCompletion env a (chatRequest opts prompt) = Rejected (msgs a)"
    using Suc.prems by simp
  have ih: "attemptLoop opts env testCase prompt (Suc a) (Some (msgs a))
              (events @ backoff (chatRequest opts prompt) a) =
           (failureResult env testCase (Some (msgs m)),
            (events @ backoff (chatRequest opts prompt) a)
              @ concat (map (backoff (chatRequest opts prompt)) [Suc a..<m])
              @ [ProviderCall m (chatRequest opts prompt)])"
    using Suc.hyps(1) [OF d] Suc.prems lt by simp
  have range: "[a..<m] = a # [Suc a..<m]"
    using lt by (simp add: upt_conv_Cons)
  from lt assms(1) have "int a < maxRetries opts" by simp
  then show ?case
    using rej ih range by (simp add: backoff_def)
qed

lemma providerCalls_append [simp]:
  "providerCalls (xs @ ys) = providerCalls xs @ providerCalls ys"
  by (simp add: providerCalls_def)

lemma attemptLoop_calls_bound:
  "length (providerCalls (snd (attemptLoop opts env testCase prompt a lastError events)))
     \<le> length (providerCalls events) + nat (maxRetries opts + 1 - int a)"
proof (induction opts env testCase prompt a lastError events rule: attemptLoop.induct)
  case (1 opts env testCase prompt attempt lastError events)
  show ?case
  proof (cases "int attempt \<le> maxRetries opts")
    case False
    then show ?thesis by simp
  next
    case le: True
    show ?thesis
    proof (cases "createChatCompletion env attempt (chatRequest opts prompt)")
      case (Resolved response)
      with le show ?thesis by (simp add: providerCalls_def)
    next
      case (Rejected msg)
      show ?thesis
      proof (cases "int attempt < maxRetries opts")
        case True
        with "1.IH"(1) [OF le Rejected True] le Rejected show ?thesis
          by (simp add: providerCalls_def)
      next
        case False
        with "1.IH"(2) [OF le Rejected False] le Rejected show ?thesis
          by (simp add: providerCalls_def)
      qed
    qed
  qed
qed

lemma sleeps_append [simp]: "sleeps (xs @ ys) = sleeps xs @ sleeps ys"
  by (simp add: sleeps_def)

lemma result_name_attemptLoop:
  "result_name (fst (attemptLoop opts env testCase prompt a lastError events)) = name testCase"
proof (induction opts env testCase prompt a lastError events rule: attemptLoop.induct)
  case (1 opts env testCase prompt attempt lastError events)
  show ?case
  proof (cases "int attempt \<le> maxRetries opts")
    case False
    then show ?thesis by (simp add: failureResult_def)
  next
    case le: True
    show ?thesis
    proof (cases "createChatCompletion env attempt (chatRequest opts prompt)")
      case (Resolved response)
      with le show ?thesis by (simp add: successResult_def Let_def)
    next
      case (Rejected msg)
      show ?thesis
      proof (cases "int attempt < maxRetries opts")
        case True
        with "1.IH"(1) [OF le Rejected True] le Rejected show ?thesis by simp
      next
        case False
        with "1.IH"(2) [OF le Rejected False] le Rejected show ?thesis by simp
      qed
    qed
  qed
qed

lemma executeTestCase_events:
  assumes "0 \<le> maxRetries opts"
  shows "\<exists>n. int n \<le> maxRetries opts
           \<and> snd (executeTestCase opts env testCase template)
               = retryEvents (chatRequest opts (replaceVariables template (inputs testCase))) n
           \<and> (\<forall>k<n. is_Rejected (createChatCompletion env k
                         (chatRequest opts (replaceVariables template (inputs testCase)))))
           \<and> success (fst (executeTestCase opts env testCase template))
               = is_Resolved (createChatCompletion env n
                         (chatRequest opts (replaceVariables template (inputs testCase))))
           \<and> (success (fst (executeTestCase opts env testCase template)) \<or> int n = maxRetries opts)"
proof -
  let ?req = "chatRequest opts (replaceVariables template (inputs testCase))"
  let ?prompt = "replaceVariables template (inputs testCase)"
  let ?out = "\<lambda>k. createChatCompletion env k ?req"
  let ?ok = "\<lambda>k. int k \<le> maxRetries opts \<and> is_Resolved (?out k)"
  show ?thesis
  proof (cases "\<exists>j. ?ok j")
    case True
    define j where "j = (LEAST j. ?ok j)"
    from True have j: "?ok j"
      unfolding j_def by (rule LeastI_ex)
    have before: "\<not> ?ok k" if "k < j" for k
      using that unfolding j_def by (rule not_less_Least)
    have rej: "\<forall>k. 0 \<le> k \<and> k < j \<longrightarrow> (\<exists>msg. ?out k = Rejected msg)"
    proof (intro allI impI)
      fix k assume k: "0 \<le> k \<and> k < j"
      with before [of k] j have "\<not> is_Resolved (?out k)" by simp
      then show "\<exists>msg. ?out k = Rejected msg"
        by (cases "?out k") simp_all
    qed
    from j obtain response where res: "?out j = Resolved response"
      by (cases "?out j") simp_all
    have run: "attemptLoop opts env testCase ?prompt 0 None [] =
                 (successResult opts env testCase response,
                  [] @ concat (map (backoff ?req) [0..<j]) @ [ProviderCall j ?req])"
      using attemptLoop_resolved [OF res _ rej, of testCase None "[]"] j by simp
    have "\<forall>k<j. is_Rejected (?out k)"
      using rej by auto
    with run res j show ?thesis
      by (intro exI [of _ j])
         (simp add: executeTestCase_def retryEvents_def successResult_def Let_def)
  next
    case False
    define m where "m = nat (maxRetries opts)"
    have m: "int m = maxRetries opts"
      using assms by (simp add: m_def)
    have rej: "\<forall>k. 0 \<le> k \<and> k \<le> m \<longrightarrow> ?out k = Rejected (the_message (?out k))"
    proof (intro allI impI)
      fix k assume "0 \<le> k \<and> k \<le> m"
      with False m have "\<not> is_Resolved (?out k)" by auto
      then show "?out k = Rejected (the_message (?out k))"
        by (cases "?out k") simp_all
    qed
    have run: "attemptLoop opts env testCase ?prompt 0 None [] =
                 (failureResult env testCase (Some (the_message (?out m))),
                  [] @ concat (map (backoff ?req) [0..<m]) @ [ProviderCall m ?req])"
      using attemptLoop_rejected [OF m rej, of testCase None "[]"] by simp
    have all: "\<forall>k<m. is_Rejected (?out k)"
    proof (intro allI impI)
      fix k assume "k < m"
      with False m have "\<not> is_Resolved (?out k)" by auto
      then show "is_Rejected (?out k)" by (cases "?out k") simp_all
    qed
    have last: "\<not> is_Resolved (?out m)"
      using False m by auto
    from run all last m show ?thesis
      by (intro exI [of _ m])
         (simp add: executeTestCase_def retryEvents_def failureResult_def)
  qed
qed

lemma providerCalls_retryEvents: "providerCalls (retryEvents request n) = [0..<Suc n]"
proof -
  have "providerCalls (concat (map (backoff request) [0..<n])) = [0..<n]"
    by (induction n) (simp_all add: providerCalls_def backoff_def)
  then show ?thesis
    by (simp add: retryEvents_def) (simp add: providerCalls_def)
qed

lemma sleeps_retryEvents: "sleeps (retryEvents request n) = map (\<lambda>k. 2 ^ k * 1000) [0..<n]"
proof -
  have "sleeps (concat (map (backoff request) [0..<n])) = map (\<lambda>k. 2 ^ k * 1000) [0..<n]"
    by (induction n) (simp_all add: sleeps_def backoff_def)
  then show ?thesis
    by (simp add: retryEvents_def) (simp add: sleeps_def)
qed

lemma client_rejection_not_empty:
  "OpenAIClient_createChatCompletion outcome = Rejected msg \<Longrightarrow> msg \<noteq> []"
  by (cases outcome) (auto simp add: OpenAIClient_createChatCompletion_def)

lemma executeTestCase_all_rejected:
  assumes "0 \<le> maxRetries opts"
    and "\<forall>k. int k \<le> maxRetries opts \<longrightarrow>
           is_Rejected (createChatCompletion env k
                          (chatRequest opts (replaceVariables template (inputs testCase))))"
  shows "executeTestCase opts env testCase template =
           (failureResult env testCase
              (Some (the_message (createChatCompletion env (nat (maxRetries opts))
                       (chatRequest opts (replaceVariables template (inputs testCase)))))),
            retryEvents (chatRequest opts (replaceVariables template (inputs testCase)))
              (nat (maxRetries opts)))"
proof -
  let ?req = "chatRequest opts (replaceVariables template (inputs testCase))"
  let ?out = "\<lambda>k. createChatCompletion env k ?req"
  have m: "int (nat (maxRetries opts)) = maxRetries opts"
    using assms(1) by simp
  have rej: "\<forall>k. 0 \<le> k \<and> k \<le> nat (maxRetries opts) \<longrightarrow> ?out k = Rejected (the_message (?out k))"
    using assms by auto
  show ?thesis
    using attemptLoop_rejected [OF m rej, of testCase None "[]"]
    by (simp add: executeTestCase_def retryEvents_def)
qed


text \<open>
  C5.  A case runs against the runner's own client.  It calls the client at
  most \<open>maxRetries + 1\<close> times.  For a retry count that is not negative the
  events of the case are the attempts \<open>0\<close> to \<open>n\<close> for some
  \<open>n \<le> maxRetries\<close>, each attempt before the last one rejected and
  followed by a sleep of \<open>2\<^sup>k\<close> seconds (in milliseconds), no sleep after
  attempt \<open>n\<close>; the case succeeds exactly if attempt \<open>n\<close> resolves, and
  otherwise \<open>n\<close> is \<open>maxRetries\<close>.  With two retries, a provider that
  fails twice and then answers is called three times and the case
  succeeds; one that fails three times is called three times and the case
  fails with the message of the third error.
\<close>

theorem C5_retry_policy:
  fixes opts :: TestRunnerOptions and sdk :: "nat \<Rightarrow> ChatCompletionRequest \<Rightarrow> sdk_outcome"
    and t0 t1 :: real and testCase :: TestCase and template :: string
  defines "env \<equiv> client_env sdk t0 t1"
  defines "request \<equiv> chatRequest opts (replaceVariables template (inputs testCase))"
  defines "result \<equiv> fst (executeTestCase opts (client_env sdk t0 t1) testCase template)"
  defines "events \<equiv> snd (executeTestCase opts (client_env sdk t0 t1) testCase template)"
  shows "length (providerCalls events) \<le> nat (maxRetries opts + 1)
       \<and> (0 \<le> maxRetries opts \<longrightarrow>
            (\<exists>n. int n \<le> maxRetries opts \<and> events = retryEvents request n
                 \<and> (\<forall>k<n. is_Rejected (createChatCompletion env k request))
                 \<and> success result = is_Resolved (createChatCompletion env n request)
                 \<and> (success result \<or> int n = maxRetries opts)))
       \<and> (maxRetries opts = 2 \<and> is_Rejected (createChatCompletion env 0 request)
            \<and> is_Rejected (createChatCompletion env 1 request)
            \<and> is_Resolved (createChatCompletion env 2 request) \<longrightarrow>
              providerCalls events = [0, 1, 2] \<and> sleeps events = [1000, 2000] \<and> success result)
       \<and> (maxRetries opts = 2 \<and> is_Rejected (createChatCompletion env 0 request)
            \<and> is_Rejected (createChatCompletion env 1 request)
            \<and> is_Rejected (createChatCompletion env 2 request) \<longrightarrow>
              providerCalls events = [0, 1, 2] \<and> sleeps events = [1000, 2000]
              \<and> \<not> success result
              \<and> error result = Some (the_message (createChatCompletion env 2 request)))"
proof -
  have bound: "length (providerCalls events) \<le> nat (maxRetries opts + 1)"
    using attemptLoop_calls_bound
            [of opts "client_env sdk t0 t1" testCase "replaceVariables template (inputs testCase)" 0 None "[]"]
    by (simp add: events_def executeTestCase_def providerCalls_def)
  have general: "0 \<le> maxRetries opts \<longrightarrow>
            (\<exists>n. int n \<le> maxRetries opts \<and> events = retryEvents request n
                 \<and> (\<forall>k<n. is_Rejected (createChatCompletion env k request))
                 \<and> success result = is_Resolved (createChatCompletion env n request)
                 \<and> (success result \<or> int n = maxRetries opts))"
  proof (rule impI)
    assume "0 \<le> maxRetries opts"
    from executeTestCase_events [OF this, of env testCase template]
    show "\<exists>n. int n \<le> maxRetries opts \<and> events = retryEvents request n
            \<and> (\<forall>k<n. is_Rejected (createChatCompletion env k request))
            \<and> success result = is_Resolved (createChatCompletion env n request)
            \<and> (success result \<or> int n = maxRetries opts)"
      by (simp add: env_def request_def result_def events_def)
  qed
  have third: "maxRetries opts = 2 \<and> is_Rejected (createChatCompletion env 0 request)
            \<and> is_Rejected (createChatCompletion env 1 request)
            \<and> is_Resolved (createChatCompletion env 2 request) \<longrightarrow>
              providerCalls events = [0, 1, 2] \<and> sleeps events = [1000, 2000] \<and> success result"
  proof (rule impI)
    assume h: "maxRetries opts = 2 \<and> is_Rejected (createChatCompletion env 0 request)
              \<and> is_Rejected (createChatCompletion env 1 request)
              \<and> is_Resolved (createChatCompletion env 2 request)"
    then obtain response where res: "createChatCompletion env 2 request = Resolved response"
      by (cases "createChatCompletion env 2 request") simp_all
    have rej: "\<forall>k. 0 \<le> k \<and> k < 2 \<longrightarrow> (\<exists>msg. createChatCompletion env k request = Rejected msg)"
    proof (intro allI impI)
      fix k :: nat assume "0 \<le> k \<and> k < 2"
      then have "k = 0 \<or> k = 1" by auto
      with h have "is_Rejected (createChatCompletion env k request)" by auto
      then show "\<exists>msg. createChatCompletion env k request = Rejected msg"
        by (cases "createChatCompletion env k request") simp_all
    qed
    have "executeTestCase opts env testCase template
            = (successResult opts env testCase response, retryEvents request 2)"
      using attemptLoop_resolved [OF res [unfolded request_def] _ rej [unfolded request_def],
              of testCase None "[]"] h
      by (simp add: executeTestCase_def retryEvents_def request_def)
    then have "result = successResult opts env testCase response" "events = retryEvents request 2"
      by (simp_all add: result_def events_def env_def)
    then show "providerCalls events = [0, 1, 2] \<and> sleeps events = [1000, 2000] \<and> success result"
      by (simp add: providerCalls_retryEvents sleeps_retryEvents successResult_def Let_def
            upt_rec numeral_2_eq_2)
  qed
  have fourth: "maxRetries opts = 2 \<and> is_Rejected (createChatCompletion env 0 request)
            \<and> is_Rejected (createChatCompletion env 1 request)
            \<and> is_Rejected (createChatCompletion env 2 request) \<longrightarrow>
              providerCalls events = [0, 1, 2] \<and> sleeps events = [1000, 2000]
              \<and> \<not> success result
              \<and> error result = Some (the_message (createChatCompletion env 2 request))"
  proof (rule impI)
    assume h: "maxRetries opts = 2 \<and> is_Rejected (createChatCompletion env 0 request)
              \<and> is_Rejected (createChatCompletion env 1 request)
              \<and> is_Rejected (createChatCompletion env 2 request)"
    have rej: "\<forall>k. int k \<le> maxRetries opts \<longrightarrow> is_Rejected (createChatCompletion env k request)"
    proof (intro allI impI)
      fix k :: nat assume "int k \<le> maxRetries opts"
      with h have "k = 0 \<or> k = 1 \<or> k = 2" by auto
      with h show "is_Rejected (createChatCompletion env k request)" by auto
    qed
    from h have nonneg: "0 \<le> maxRetries opts" by simp
    have run: "executeTestCase opts env testCase template
            = (failureResult env testCase (Some (the_message (createChatCompletion env 2 request))),
               retryEvents request 2)"
      using executeTestCase_all_rejected [OF nonneg rej [unfolded request_def]] h
      by (simp add: request_def)
    from h obtain msg where msg: "createChatCompletion env 2 request = Rejected msg"
      by (cases "createChatCompletion env 2 request") simp_all
    then have "msg \<noteq> []"
      using client_rejection_not_empty [of "sdk 2 request" msg]
      by (simp add: env_def client_env_def)
    with run msg have "result = failureResult env testCase (Some msg)" "events = retryEvents request 2"
      "error result = Some msg"
      by (simp_all add: result_def events_def env_def failureResult_def)
    with msg show "providerCalls events = [0, 1, 2] \<and> sleeps events = [1000, 2000]
        \<and> \<not> success result \<and> error result = Some (the_message (createChatCompletion env 2 request))"
      by (simp add: providerCalls_retryEvents sleeps_retryEvents failureResult_def
            upt_rec numeral_2_eq_2)
  qed
  show ?thesis
    by (intro conjI bound general third fourth)
qed

lemma client_env_times [simp]:
  "startTime (client_env sdk t0 t1) = t0" "endTime (client_env sdk t0 t1) = t1"
  by (simp_all add: client_env_def)

lemma example_sdk_outcomes:
  "createChatCompletion (client_env sdk_fails_twice t0 t1) 0 request = Rejected ''API request failed: Timeout''"
  "createChatCompletion (client_env sdk_fails_twice t0 t1) 1 request = Rejected ''API request failed: Timeout''"
  "is_Resolved (createChatCompletion (client_env sdk_fails_twice t0 t1) 2 request)"
  "createChatCompletion (client_env sdk_always_fails t0 t1) k request
     = Rejected ''API request failed: Persistent Error''"
  by (simp_all add: client_env_def sdk_fails_twice_def sdk_always_fails_def
        OpenAIClient_createChatCompletion_def)

theorem C5_retry_policy_witness:
  "maxRetries example_options = 2
   \<and> 0 \<le> maxRetries example_options
   \<and> (\<exists>n. int n \<le> maxRetries example_options
          \<and> snd (executeTestCase example_options (client_env sdk_fails_twice 0 3250)
                (example_case ''Test 1'' ''hello'') ''{{query}}'')
              = retryEvents (chatRequest example_options
                  (replaceVariables ''{{query}}'' (inputs (example_case ''Test 1'' ''hello'')))) n)
   \<and> providerCalls (snd (executeTestCase example_options (client_env sdk_fails_twice 0 3250)
         (example_case ''Test 1'' ''hello'') ''{{query}}'')) = [0, 1, 2]
   \<and> sleeps (snd (executeTestCase example_options (client_env sdk_fails_twice 0 3250)
         (example_case ''Test 1'' ''hello'') ''{{query}}'')) = [1000, 2000]
   \<and> success (fst (executeTestCase example_options (client_env sdk_fails_twice 0 3250)
         (example_case ''Test 1'' ''hello'') ''{{query}}''))
   \<and> providerCalls (snd (executeTestCase example_options (client_env sdk_always_fails 0 3250)
         (example_case ''Test 1'' ''hello'') ''{{query}}'')) = [0, 1, 2]
   \<and> \<not> success (fst (executeTestCase example_options (client_env sdk_always_fails 0 3250)
         (example_case ''Test 1'' ''hello'') ''{{query}}''))
   \<and> error (fst (executeTestCase example_options (client_env sdk_always_fails 0 3250)
         (example_case ''Test 1'' ''hello'') ''{{query}}''))
       = Some ''API request failed: Persistent Error''"
proof -
  let ?tc = "example_case ''Test 1'' ''hello''"
  let ?req = "chatRequest example_options (replaceVariables ''{{query}}'' (inputs ?tc))"
  have m: "maxRetries example_options = 2"
    by (simp add: example_options_def)
  have twice: "is_Rejected (createChatCompletion (client_env sdk_fails_twice 0 3250) 0 ?req)"
    "is_Rejected (createChatCompletion (client_env sdk_fails_twice 0 3250) 1 ?req)"
    "is_Resolved (createChatCompletion (client_env sdk_fails_twice 0 3250) 2 ?req)"
    by (simp_all only: example_sdk_outcomes provider_outcome.disc)
  have always: "is_Rejected (createChatCompletion (client_env sdk_always_fails 0 3250) 0 ?req)"
    "is_Rejected (createChatCompletion (client_env sdk_always_fails 0 3250) 1 ?req)"
    "is_Rejected (createChatCompletion (client_env sdk_always_fails 0 3250) 2 ?req)"
    by (simp_all only: example_sdk_outcomes provider_outcome.disc)
  have last: "the_message (createChatCompletion (client_env sdk_always_fails 0 3250) 2 ?req)
                = ''API request failed: Persistent Error''"
    by (simp only: example_sdk_outcomes provider_outcome.sel)
  have nonneg: "0 \<le> maxRetries example_options"
    by (simp add: example_options_def)
  note second = C5_retry_policy [of example_options sdk_fails_twice 0 3250 ?tc "''{{query}}''",
                 THEN conjunct2, THEN conjunct1, rule_format]
  from second [OF nonneg] obtain n where
    n: "int n \<le> maxRetries example_options"
       "snd (executeTestCase example_options (client_env sdk_fails_twice 0 3250) ?tc ''{{query}}'')
          = retryEvents ?req n"
    by blast
  have events: "\<exists>n. int n \<le> maxRetries example_options
          \<and> snd (executeTestCase example_options (client_env sdk_fails_twice 0 3250) ?tc ''{{query}}'')
              = retryEvents ?req n"
    by (rule exI [of _ n]) (simp only: n)
  note third = C5_retry_policy [of example_options sdk_fails_twice 0 3250 ?tc "''{{query}}''",
                 THEN conjunct2, THEN conjunct2, THEN conjunct1, rule_format]
  note fourth = C5_retry_policy [of example_options sdk_always_fails 0 3250 ?tc "''{{query}}''",
                 THEN conjunct2, THEN conjunct2, THEN conjunct2, rule_format]
  from third m twice have
    "providerCalls (snd (executeTestCase example_options (client_env sdk_fails_twice 0 3250)
         ?tc ''{{query}}'')) = [0, 1, 2]
     \<and> sleeps (snd (executeTestCase example_options (client_env sdk_fails_twice 0 3250)
         ?tc ''{{query}}'')) = [1000, 2000]
     \<and> success (fst (executeTestCase example_options (client_env sdk_fails_twice 0 3250)
         ?tc ''{{query}}''))"
    by blast
  moreover from fourth m always have
    "providerCalls (snd (executeTestCase example_options (client_env sdk_always_fails 0 3250)
         ?tc ''{{query}}'')) = [0, 1, 2]
     \<and> sleeps (snd (executeTestCase example_options (client_env sdk_always_fails 0 3250)
         ?tc ''{{query}}'')) = [1000, 2000]
     \<and> \<not> success (fst (executeTestCase example_options (client_env sdk_always_fails 0 3250)
         ?tc ''{{query}}''))
     \<and> error (fst (executeTestCase example_options (client_env sdk_always_fails 0 3250)
         ?tc ''{{query}}''))
         = Some (the_message (createChatCompletion (client_env sdk_always_fails 0 3250) 2 ?req))"
    by blast
  ultimately show ?thesis
    using m nonneg events last by (simp del: replaceVariables.simps)
qed

text \<open>
  The record of a failed case, on the provider that never answers: three
  attempts are rejected, and the case that started at time 0 and ended at
  time 3250 is recorded with a latency of 3250, not 0.
\<close>

theorem C6_latency_not_zero:
  "is_Rejected (createChatCompletion (client_env sdk_always_fails 0 3250) 0
       (chatRequest example_options (replaceVariables ''{{query}}'' (inputs (example_case ''Test 1'' ''hello'')))))
   \<and> is_Rejected (createChatCompletion (client_env sdk_always_fails 0 3250) 1
       (chatRequest example_options (replaceVariables ''{{query}}'' (inputs (example_case ''Test 1'' ''hello'')))))
   \<and> is_Rejected (createChatCompletion (client_env sdk_always_fails 0 3250) 2
       (chatRequest example_options (replaceVariables ''{{query}}'' (inputs (example_case ''Test 1'' ''hello'')))))
   \<and> maxRetries example_options = 2
   \<and> \<not> success (fst (executeTestCase example_options (client_env sdk_always_fails 0 3250)
         (example_case ''Test 1'' ''hello'') ''{{query}}''))
   \<and> latency (fst (executeTestCase example_options (client_env sdk_always_fails 0 3250)
         (example_case ''Test 1'' ''hello'') ''{{query}}'')) = 3250
   \<and> latency (fst (executeTestCase example_options (client_env sdk_always_fails 0 3250)
         (example_case ''Test 1'' ''hello'') ''{{query}}'')) \<noteq> 0"
proof -
  have m: "0 \<le> maxRetries example_options" "maxRetries example_options = 2"
    by (simp_all add: example_options_def)
  have rej: "\<forall>k. int k \<le> maxRetries example_options \<longrightarrow>
      is_Rejected (createChatCompletion (client_env sdk_always_fails 0 3250) k
        (chatRequest example_options
           (replaceVariables ''{{query}}'' (inputs (example_case ''Test 1'' ''hello'')))))"
    by (simp add: example_sdk_outcomes)
  have "executeTestCase example_options (client_env sdk_always_fails 0 3250)
          (example_case ''Test 1'' ''hello'') ''{{query}}'' =
        (failureResult (client_env sdk_always_fails 0 3250) (example_case ''Test 1'' ''hello'')
           (Some ''API request failed: Persistent Error''),
         retryEvents (chatRequest example_options
           (replaceVariables ''{{query}}'' (inputs (example_case ''Test 1'' ''hello'')))) 2)"
    using executeTestCase_all_rejected [OF m(1) rej] m(2)
    by (simp add: example_sdk_outcomes del: replaceVariables.simps)
  then show ?thesis
    using m(2) by (simp add: example_sdk_outcomes failureResult_def
                     del: replaceVariables.simps)
qed

text \<open>
  C6.  When the retry count is not negative and every attempt of a case is
  rejected, the recorded result carries the name of the case,
  \<open>success = false\<close>, no output, zero \<open>inputTokens\<close>, \<open>outputTokens\<close> and
  \<open>cost\<close>, and the message of the last error as \<open>error\<close>.  Its latency is
  not zeroed: it is the time from the start of the case to the moment the
  result is built.
\<close>

theorem C6_failed_case_record:
  fixes opts :: TestRunnerOptions and sdk :: "nat \<Rightarrow> ChatCompletionRequest \<Rightarrow> sdk_outcome"
    and t0 t1 :: real and testCase :: TestCase and template :: string
  defines "env \<equiv> client_env sdk t0 t1"
  defines "request \<equiv> chatRequest opts (replaceVariables template (inputs testCase))"
  assumes "0 \<le> maxRetries opts"
    and "\<forall>k. int k \<le> maxRetries opts \<longrightarrow> is_Rejected (createChatCompletion env k request)"
  shows "fst (executeTestCase opts env testCase template) =
           \<lparr>result_name = name testCase,
            success = False,
            latency = t1 - t0,
            inputTokens = 0,
            outputTokens = 0,
            cost = 0,
            error = Some (the_message (createChatCompletion env (nat (maxRetries opts)) request)),
            output_text = None\<rparr>"
proof -
  let ?last = "createChatCompletion env (nat (maxRetries opts)) request"
  from assms(3,4) have "is_Rejected ?last" by simp
  then obtain msg where msg: "?last = Rejected msg"
    by (cases ?last) simp_all
  then have "msg \<noteq> []"
    using client_rejection_not_empty [of "sdk (nat (maxRetries opts)) request" msg]
    by (simp add: env_def client_env_def)
  with msg show ?thesis
    using executeTestCase_all_rejected [OF assms(3) assms(4) [unfolded request_def]]
    by (simp add: failureResult_def request_def env_def)
qed

theorem C6_failed_case_record_witness:
  "0 \<le> maxRetries example_options
   \<and> fst (executeTestCase example_options (client_env sdk_always_fails 0 3250)
            (example_case ''Test 1'' ''hello'') ''{{query}}'') =
       \<lparr>result_name = ''Test 1'',
        success = False,
        latency = 3250,
        inputTokens = 0,
        outputTokens = 0,
        cost = 0,
        error = Some ''API request failed: Persistent Error'',
        output_text = None\<rparr>"
proof -
  have m: "0 \<le> maxRetries example_options"
    by (simp add: example_options_def)
  have rej: "\<forall>k. int k \<le> maxRetries example_options \<longrightarrow>
      is_Rejected (createChatCompletion (client_env sdk_always_fails 0 3250) k
        (chatRequest example_options
           (replaceVariables ''{{query}}'' (inputs (example_case ''Test 1'' ''hello'')))))"
    by (simp add: example_sdk_outcomes)
  show ?thesis
    using C6_failed_case_record [OF m rej] m
    by (simp add: example_sdk_outcomes example_case_def example_options_def
          del: replaceVariables.simps)
qed

section \<open>Properties of a run\<close>

lemma finish_keeps_results:
  assumes "length (slots st) = length (testCases dataset)"
    and "\<forall>i<length (testCases dataset). slots st ! i = None
           \<or> slots st ! i = Some (fst (executeTestCase opts (envs i) (testCases dataset ! i) promptA))"
  shows "length (slots (finish opts envs dataset promptA st j)) = length (testCases dataset)
       \<and> (\<forall>i<length (testCases dataset). slots (finish opts envs dataset promptA st j) ! i = None
           \<or> slots (finish opts envs dataset promptA st j) ! i
               = Some (fst (executeTestCase opts (envs i) (testCases dataset ! i) promptA)))"
  using assms by (auto simp add: finish_def running_def Let_def nth_list_update)

lemma foldl_finish_keeps_results:
  assumes "length (slots st) = length (testCases dataset)"
    and "\<forall>i<length (testCases dataset). slots st ! i = None
           \<or> slots st ! i = Some (fst (executeTestCase opts (envs i) (testCases dataset ! i) promptA))"
  shows "length (slots (foldl (finish opts envs dataset promptA) st schedule)) = length (testCases dataset)
       \<and> (\<forall>i<length (testCases dataset).
             slots (foldl (finish opts envs dataset promptA) st schedule) ! i = None
           \<or> slots (foldl (finish opts envs dataset promptA) st schedule) ! i
               = Some (fst (executeTestCase opts (envs i) (testCases dataset ! i) promptA)))"
  using assms
proof (induction schedule arbitrary: st)
  case Nil
  then show ?case by simp
next
  case (Cons j schedule)
  from finish_keeps_results [OF Cons.prems, of j]
  show ?case
    using Cons.IH [of "finish opts envs dataset promptA st j"] by simp
qed

lemma run_results:
  assumes "run opts envs schedule dataset promptA promptB = Some (Inr v)"
  shows "result_testCases v
           = map (\<lambda>i. fst (executeTestCase opts (envs i) (testCases dataset ! i) promptA))
               [0..<length (testCases dataset)]"
proof -
  let ?st = "run_states opts envs dataset promptA schedule"
  let ?R = "\<lambda>i. fst (executeTestCase opts (envs i) (testCases dataset ! i) promptA)"
  from assms have full: "list_all (\<lambda>slot. slot \<noteq> None) (slots ?st)"
    and v: "result_testCases v = map the (slots ?st)"
    by (auto simp add: run_def Let_def split: if_splits)
  have inv: "length (slots ?st) = length (testCases dataset)
       \<and> (\<forall>i<length (testCases dataset). slots ?st ! i = None \<or> slots ?st ! i = Some (?R i))"
    unfolding run_states_def
    by (rule foldl_finish_keeps_results) (simp_all add: initial_state_def)
  have "map the (slots ?st) = map ?R [0..<length (testCases dataset)]"
  proof (rule nth_equalityI)
    show "length (map the (slots ?st)) = length (map ?R [0..<length (testCases dataset)])"
      using inv by simp
  next
    fix i assume "i < length (map the (slots ?st))"
    then have i: "i < length (testCases dataset)" using inv by simp
    with full inv have "slots ?st ! i \<noteq> None"
      by (simp add: list_all_length)
    with inv i have "slots ?st ! i = Some (?R i)" by auto
    with i inv show "map the (slots ?st) ! i = map ?R [0..<length (testCases dataset)] ! i"
      by simp
  qed
  with v show ?thesis by simp
qed

lemma finish_running:
  assumes "running opts st i"
  shows "filled (finish opts envs dataset promptA st i) = insert i (filled st)
       \<and> length (slots (finish opts envs dataset promptA st i)) = length (slots st)
       \<and> completed (finish opts envs dataset promptA st i) = completed st + 1"
  using assms
  by (auto simp add: finish_def running_def filled_def Let_def nth_list_update)

lemma foldl_finish_fills:
  assumes "distinct schedule" and "set schedule \<inter> filled st = {}"
    and "\<forall>i\<in>set schedule. i < length (slots st)"
    and "started_in_turn (concurrency opts) (completed st) schedule"
  shows "filled (foldl (finish opts envs dataset promptA) st schedule) = filled st \<union> set schedule
       \<and> length (slots (foldl (finish opts envs dataset promptA) st schedule)) = length (slots st)"
  using assms
proof (induction schedule arbitrary: st)
  case Nil
  then show ?case by simp
next
  case (Cons i schedule)
  let ?st = "finish opts envs dataset promptA st i"
  from Cons.prems have "i < length (slots st)" and "i \<notin> filled st"
    and "int i < concurrency opts + int (completed st)"
    by auto
  then have "running opts st i"
    by (auto simp add: running_def filled_def)
  note step = finish_running [OF this, of envs dataset promptA]
  have "filled (foldl (finish opts envs dataset promptA) ?st schedule) = filled ?st \<union> set schedule
      \<and> length (slots (foldl (finish opts envs dataset promptA) ?st schedule)) = length (slots ?st)"
  proof (rule Cons.IH)
    show "distinct schedule" using Cons.prems by simp
    show "set schedule \<inter> filled ?st = {}" using Cons.prems step by auto
    show "\<forall>i\<in>set schedule. i < length (slots ?st)" using Cons.prems step by simp
    show "started_in_turn (concurrency opts) (completed ?st) schedule"
      using Cons.prems step by simp
  qed
  with step show ?case by auto
qed

lemma run_settles:
  assumes "1 \<le> concurrency opts"
    and "completion_order (concurrency opts) (length (testCases dataset)) schedule"
  shows "\<exists>v. run opts envs schedule dataset promptA promptB = Some (Inr v)"
proof -
  let ?n = "length (testCases dataset)"
  let ?st = "run_states opts envs dataset promptA schedule"
  from assms(2) have d: "distinct schedule" and l: "length schedule = ?n"
    and b: "\<forall>i\<in>set schedule. i < ?n" and s: "started_in_turn (concurrency opts) 0 schedule"
    by (simp_all add: completion_order_def list_all_iff)
  have init: "filled (initial_state dataset) = {}" "length (slots (initial_state dataset)) = ?n"
    "completed (initial_state dataset) = 0"
    by (simp_all add: filled_def initial_state_def)
  have fin: "filled ?st = set schedule \<and> length (slots ?st) = ?n"
    unfolding run_states_def
    using foldl_finish_fills [of schedule "initial_state dataset" opts envs dataset promptA] d b s init
    by simp
  have "set schedule \<subseteq> {..<?n}" using b by auto
  moreover have "card (set schedule) = card {..<?n}"
    using d l by (simp add: distinct_card)
  ultimately have "set schedule = {..<?n}"
    by (intro card_subset_eq) simp_all
  with fin have "\<forall>i<length (slots ?st). slots ?st ! i \<noteq> None"
    by (auto simp add: filled_def)
  then have "list_all (\<lambda>slot. slot \<noteq> None) (slots ?st)"
    by (simp add: list_all_length)
  with assms(1) show ?thesis
    by (simp add: run_def Let_def)
qed

lemma started_in_turn_upt:
  "1 \<le> c \<Longrightarrow> started_in_turn c k [k..<k + m]"
proof (induction m arbitrary: k)
  case 0
  then show ?case by simp
next
  case (Suc m)
  have "[k..<k + Suc m] = k # [Suc k..<Suc k + m]"
    by (simp add: upt_conv_Cons)
  with Suc.IH [of "Suc k"] Suc.prems show ?case by simp
qed

lemma completion_order_upt: "1 \<le> c \<Longrightarrow> completion_order c n [0..<n]"
  using started_in_turn_upt [of c 0 n]
  by (simp add: completion_order_def list_all_iff)

lemma result_name_executeTestCase:
  "result_name (fst (executeTestCase opts env testCase template)) = name testCase"
  by (simp add: executeTestCase_def result_name_attemptLoop
        del: attemptLoop.simps replaceVariables.simps)

text \<open>
  C4.  For a concurrency of at least 1: whenever \<open>run\<close> returns a version
  result, for whatever order the cases finished in, the list of case
  results is as long as the dataset and its \<open>i\<close>-th entry is the result of
  executing the \<open>i\<close>-th test case, under that case's name.  \<open>run\<close> does
  return one for every order of completion in which each case finishes
  once after \<open>pLimit\<close> has started it, and the dataset order is always
  such an order.
\<close>

theorem C4_results_in_dataset_order:
  assumes "1 \<le> concurrency opts"
  shows "(\<forall>v. run opts envs schedule dataset promptA promptB = Some (Inr v) \<longrightarrow>
            length (result_testCases v) = length (testCases dataset)
          \<and> (\<forall>i<length (testCases dataset).
                result_testCases v ! i
                  = fst (executeTestCase opts (envs i) (testCases dataset ! i) promptA)
              \<and> result_name (result_testCases v ! i) = name (testCases dataset ! i)))
       \<and> (completion_order (concurrency opts) (length (testCases dataset)) schedule \<longrightarrow>
            (\<exists>v. run opts envs schedule dataset promptA promptB = Some (Inr v)))
       \<and> completion_order (concurrency opts) (length (testCases dataset))
            [0..<length (testCases dataset)]"
proof -
  have sound: "\<forall>v. run opts envs schedule dataset promptA promptB = Some (Inr v) \<longrightarrow>
            length (result_testCases v) = length (testCases dataset)
          \<and> (\<forall>i<length (testCases dataset).
                result_testCases v ! i
                  = fst (executeTestCase opts (envs i) (testCases dataset ! i) promptA)
              \<and> result_name (result_testCases v ! i) = name (testCases dataset ! i))"
  proof (intro allI impI)
    fix v assume "run opts envs schedule dataset promptA promptB = Some (Inr v)"
    from run_results [OF this] show "length (result_testCases v) = length (testCases dataset)
          \<and> (\<forall>i<length (testCases dataset).
                result_testCases v ! i
                  = fst (executeTestCase opts (envs i) (testCases dataset ! i) promptA)
              \<and> result_name (result_testCases v ! i) = name (testCases dataset ! i))"
      by (simp add: result_name_executeTestCase)
  qed
  have settles: "completion_order (concurrency opts) (length (testCases dataset)) schedule \<longrightarrow>
            (\<exists>v. run opts envs schedule dataset promptA promptB = Some (Inr v))"
    using run_settles [OF assms] by blast
  show ?thesis
    by (intro conjI sound settles completion_order_upt [OF assms])
qed

text \<open>Three cases, two at a time; the second case finishes first.\<close>

theorem C4_results_in_dataset_order_witness:
  "1 \<le> concurrency example_options
   \<and> completion_order (concurrency example_options) (length (testCases example_dataset)) [1, 0, 2]
   \<and> (\<exists>v. run example_options example_envs [1, 0, 2] example_dataset
              ''Answer: {{query}}'' ''Reply: {{query}}'' = Some (Inr v)
          \<and> map result_name (result_testCases v) = [''Test 1'', ''Test 2'', ''Test 3''])"
proof -
  have c: "1 \<le> concurrency example_options"
    by (simp add: example_options_def)
  have n: "length (testCases example_dataset) = 3"
    by (simp add: example_dataset_def)
  have order: "completion_order (concurrency example_options) (length (testCases example_dataset)) [1, 0, 2]"
    by (simp add: completion_order_def example_options_def example_dataset_def)
  note inst = C4_results_in_dataset_order
               [OF c, of example_envs "[1, 0, 2]" example_dataset "''Answer: {{query}}''" "''Reply: {{query}}''"]
  from inst order obtain v where
    v: "run example_options example_envs [1, 0, 2] example_dataset
          ''Answer: {{query}}'' ''Reply: {{query}}'' = Some (Inr v)"
    by blast
  with inst have len: "length (result_testCases v) = 3"
    and names: "\<forall>i<3. result_name (result_testCases v ! i) = name (testCases example_dataset ! i)"
    using n by auto
  have mapped: "map result_name (result_testCases v) = [''Test 1'', ''Test 2'', ''Test 3'']"
  proof (rule nth_equalityI)
    show "length (map result_name (result_testCases v)) = length [''Test 1'', ''Test 2'', ''Test 3'']"
      using len by simp
  next
    fix i assume "i < length (map result_name (result_testCases v))"
    then have i: "i < 3" using len by simp
    then have "i = 0 \<or> i = 1 \<or> i = 2" by auto
    with names len show "map result_name (result_testCases v) ! i = [''Test 1'', ''Test 2'', ''Test 3''] ! i"
      by (auto simp add: example_dataset_def example_case_def)
  qed
  have "\<exists>v. run example_options example_envs [1, 0, 2] example_dataset
              ''Answer: {{query}}'' ''Reply: {{query}}'' = Some (Inr v)
          \<and> map result_name (result_testCases v) = [''Test 1'', ''Test 2'', ''Test 3'']"
    by (rule exI [of _ v]) (simp only: v mapped)
  with c order show ?thesis
    by (intro conjI)
qed

text \<open>
  C9.  \<open>run\<close> does not use its third argument: with everything else the
  same, two calls that differ only in it return the same thing, case results
  and summary alike; every case is executed against \<open>promptA\<close>.
\<close>

theorem C9_run_ignores_promptB:
  "run opts envs schedule dataset promptA p = run opts envs schedule dataset promptA p'"
  by (simp add: run_def)

section \<open>Properties of the numbers\<close>

lemma round_half_even_int [simp]: "round_half_even (of_int z) = z"
  by (simp add: round_half_even_def)

lemma round_half_even_ge: "of_int k \<le> y \<Longrightarrow> k \<le> round_half_even y"
proof -
  assume "of_int k \<le> y"
  then have "k \<le> \<lfloor>y\<rfloor>" by (simp add: le_floor_iff)
  then show ?thesis by (auto simp add: round_half_even_def Let_def)
qed

lemma round_half_even_le: "y \<le> of_int k \<Longrightarrow> round_half_even y \<le> k"
proof -
  assume le: "y \<le> of_int k"
  then have f: "\<lfloor>y\<rfloor> \<le> k" by (simp add: floor_le_iff)
  show ?thesis
  proof (cases "y - of_int \<lfloor>y\<rfloor> < 1 / 2")
    case True
    with f show ?thesis by (simp add: round_half_even_def Let_def)
  next
    case False
    then have "of_int \<lfloor>y\<rfloor> < y" by linarith
    with le have "of_int \<lfloor>y\<rfloor> < (of_int k :: real)" by linarith
    then have "\<lfloor>y\<rfloor> < k" by simp
    then show ?thesis by (auto simp add: round_half_even_def Let_def)
  qed
qed

lemma floor_log2:
  assumes "0 < x" and "2 powr of_int k \<le> x" and "x < 2 powr (of_int k + 1)"
  shows "\<lfloor>log 2 x\<rfloor> = k"
proof (rule floor_unique)
  show "of_int k \<le> log 2 x"
    using assms by (simp add: le_log_iff)
  show "log 2 x < of_int k + 1"
    using assms by (simp add: log_less_iff)
qed


lemma binary64_exact:
  assumes lo: "2 ^ k \<le> \<bar>x\<bar>" and hi: "\<bar>x\<bar> < 2 ^ Suc k" and k: "k \<le> 52"
    and int: "x * 2 ^ (52 - k) = of_int z"
  shows "binary64 x = Fin x"
proof -
  from lo have pos: "0 < \<bar>x\<bar>"
    by (smt (verit) zero_less_power)
  then have nz: "x \<noteq> 0" by simp
  have "2 powr of_int (int k) = (2::real) ^ k"
    by (simp add: powr_realpow)
  moreover have "2 powr (of_int (int k) + 1) = (2::real) ^ Suc k"
    by (simp add: powr_add powr_realpow)
  ultimately have e: "\<lfloor>log 2 \<bar>x\<bar>\<rfloor> = int k"
    using floor_log2 [OF pos, of "int k"] lo hi by simp
  have u: "2 powr (of_int (max (int k) (- 1022)) - 52) = 1 / (2::real) ^ (52 - k)"
  proof -
    have "of_int (max (int k) (- 1022)) - 52 = - real (52 - k)"
      using k by simp
    moreover have "2 powr (- real (52 - k)) = 1 / (2::real) ^ (52 - k)"
      using powr_minus [of 2 "real (52 - k)"] powr_realpow [of 2 "52 - k"]
      by (simp only: inverse_eq_divide)
    ultimately show ?thesis by (simp only:)
  qed
  have small: "\<bar>x\<bar> < 2 ^ 1024"
  proof -
    have "(2::real) ^ Suc k \<le> 2 ^ 1024"
      using k by (intro power_increasing) simp_all
    with hi show ?thesis by linarith
  qed
  have "x / (1 / 2 ^ (52 - k)) = of_int z"
    using int by simp
  then have y: "1 / 2 ^ (52 - k) * of_int (round_half_even (x / (1 / 2 ^ (52 - k)))) = x"
    using int by (simp add: field_simps)
  show ?thesis
    using nz small
    unfolding binary64_def Let_def e u y
    by simp
qed

lemma binary64_0 [simp]: "binary64 0 = Fin 0"
  by (simp add: binary64_def)

lemma binary64_1 [simp]: "binary64 1 = Fin 1"
  by (rule binary64_exact [where k = 0 and z = "2 ^ 52"]) simp_all

lemma binary64_2 [simp]: "binary64 2 = Fin 2"
  by (rule binary64_exact [where k = 1 and z = "2 ^ 52"]) simp_all

lemma binary64_100 [simp]: "binary64 100 = Fin 100" "binary64 (- 100) = Fin (- 100)"
  by (rule binary64_exact [where k = 6 and z = "100 * 2 ^ 46"], simp_all)
     (rule binary64_exact [where k = 6 and z = "- 100 * 2 ^ 46"], simp_all)

lemma binary64_200 [simp]: "binary64 200 = Fin 200"
  by (rule binary64_exact [where k = 7 and z = "200 * 2 ^ 45"]) simp_all

lemma binary64_300 [simp]: "binary64 300 = Fin 300"
  by (rule binary64_exact [where k = 8 and z = "300 * 2 ^ 44"]) simp_all

lemma binary64_unit_interval:
  assumes "0 < x" and "x \<le> 1"
  shows "\<exists>c. binary64 x = Fin c \<and> 0 \<le> c \<and> c \<le> 1"
proof -
  define e where "e = max \<lfloor>log 2 \<bar>x\<bar>\<rfloor> (- 1022)"
  define n where "n = nat (52 - e)"
  have "log 2 \<bar>x\<bar> \<le> 0"
    using assms by (simp add: log_le_zero_cancel_iff)
  then have "\<lfloor>log 2 \<bar>x\<bar>\<rfloor> \<le> 0"
    by (simp add: floor_le_iff)
  then have e0: "e \<le> 0" by (simp add: e_def)
  then have "of_int e - 52 = - real n"
    by (simp add: n_def)
  moreover have "2 powr (- real n) = 1 / (2::real) ^ n"
    using powr_minus [of 2 "real n"] powr_realpow [of 2 n]
    by (simp only: inverse_eq_divide)
  ultimately have u: "2 powr (of_int e - 52) = 1 / (2::real) ^ n"
    by (simp only:)
  let ?r = "round_half_even (x / (1 / (2::real) ^ n))"
  have "x / (1 / 2 ^ n) \<le> of_int (2 ^ n)"
    using assms by (simp add: field_simps)
  then have up: "?r \<le> 2 ^ n"
    by (rule round_half_even_le)
  have "of_int 0 \<le> x / (1 / 2 ^ n)"
    using assms by simp
  then have low: "0 \<le> ?r"
    by (rule round_half_even_ge)
  let ?y = "1 / (2::real) ^ n * of_int ?r"
  have y0: "0 \<le> ?y" using low by simp
  have "of_int ?r \<le> (2::real) ^ n"
    using up by (metis of_int_le_iff of_int_numeral of_int_power)
  then have y1: "?y \<le> 1"
    by (simp add: field_simps)
  have "\<bar>?y\<bar> < 2 ^ 1024"
  proof -
    have "(1::real) < 2 ^ 1024" by (rule one_less_power) simp_all
    with y0 y1 show ?thesis by linarith
  qed
  then show ?thesis
    using assms y0 y1
    unfolding binary64_def Let_def e_def [symmetric] u
    by auto
qed


section \<open>Properties of the t-test\<close>

lemma jsub_self [simp]: "jsub (Fin m) (Fin m) = Fin 0"
  by (simp add: jsub_def jneg_def)

lemma jdiv_nonzero: "w \<noteq> Fin 0 \<Longrightarrow> jdiv div0 v w = jdiv ieee_div_zero v w"
  by (simp add: jdiv_def)

lemma jdiv_zero_Fin [simp]: "y \<noteq> 0 \<Longrightarrow> jdiv div0 (Fin 0) (Fin y) = Fin 0"
  by (simp add: jdiv_def)

lemma jsqrt_0 [simp]: "jsqrt (Fin 0) = Fin 0"
  by (simp add: jsqrt_def)

lemma jsqrt_1 [simp]: "jsqrt (Fin 1) = Fin 1"
  by (simp add: jsqrt_def)

lemma jmul_0_0 [simp]: "jmul (Fin 0) (Fin 0) = Fin 0"
  by (simp add: jmul_def)

lemma jabs_0 [simp]: "jabs (Fin 0) = Fin 0"
  by (simp add: jabs_def)

lemma toFixed_number_0 [simp]: "toFixed_number d (Fin 0) = Fin 0"
  by (simp add: toFixed_number_def)

lemma toFixed_number_1 [simp]: "toFixed_number d (Fin 1) = Fin 1"
proof -
  have "\<lfloor>(10::real) ^ d + 1 / 2\<rfloor> = 10 ^ d"
    by (rule floor_unique) simp_all
  moreover have "\<bar>1::real\<bar> < 10 ^ 21" by simp
  ultimately show ?thesis
    by (simp add: toFixed_number_def)
qed

lemma toFixed_number_NaN [simp]: "toFixed_number d NaN = NaN"
  by (simp add: toFixed_number_def)

lemma not_below_level [simp]: "0 < x \<Longrightarrow> x \<le> 1 \<Longrightarrow> \<not> jlt (Fin 1) (lit x)"
proof -
  assume "0 < x" and "x \<le> 1"
  then obtain c where "binary64 x = Fin c" and "c \<le> 1"
    using binary64_unit_interval [of x] by auto
  then show ?thesis
    by (simp add: lit_def)
qed

lemma ss_mean_nonempty: "x \<noteq> [] \<Longrightarrow> ss_mean div0 x = Inr (jdiv div0 (ss_sum x) (of_length x))"
  by (simp add: ss_mean_def)

lemma ss_mean_empty: "ss_mean div0 [] = Inl (Error ''mean requires at least one data point'')"
  by (simp add: ss_mean_def)


lemma calculatePValue_0 [simp]: "calculatePValue div0 (Fin 0) df = Fin 1"
  by (simp add: calculatePValue_def jeq_def)

text \<open>A difference of 0 gives a t-statistic of 0: by the guard, or as the
  quotient of 0 by a positive standard error.\<close>

lemma tStatistic_0 [simp]: "tStatistic div0 (Fin 0) se = Fin 0"
  by (cases se) (simp_all add: tStatistic_def jgt_def jdiv_def)

lemma tStatistic_guard [simp]: "tStatistic div0 diff (Fin 0) = Fin 0"
  by (simp add: tStatistic_def jgt_def)



lemma stdDev_singleton [simp]: "stdDev div0 [a] = Fin 0"
  by (simp add: stdDev_def)

lemma standardError_singletons [simp]: "standardError div0 [a] [b] = Fin 0"
  by (simp add: standardError_def of_length_def jadd.simps)



lemma tTest_empty:
  "sampleA = [] \<or> sampleB = [] \<Longrightarrow>
     tTest div0 sampleA sampleB = Inl (Error ''mean requires at least one data point'')"
  by (auto simp add: tTest_def ss_mean_def)

lemma tTest_total:
  "sampleA \<noteq> [] \<Longrightarrow> sampleB \<noteq> [] \<Longrightarrow> \<exists>r. tTest div0 sampleA sampleB = Inr r"
  by (simp add: tTest_def ss_mean_def Let_def)

lemma compareVersions_no_success:
  assumes "filter success (result_testCases resultA) = [] \<or> filter success (result_testCases resultB) = []"
  shows "compareVersions div0 resultA resultB = Inl (Error ''mean requires at least one data point'')"
  using assms by (auto simp add: compareVersions_def Let_def tTest_empty)

lemma compareVersions_total:
  assumes "filter success (result_testCases resultA) \<noteq> []" "filter success (result_testCases resultB) \<noteq> []"
  shows "\<exists>c. compareVersions div0 resultA resultB = Inr c"
proof -
  let ?A = "filter success (result_testCases resultA)" and ?B = "filter success (result_testCases resultB)"
  let ?tokens = "\<lambda>tc. jadd (Fin (inputTokens tc)) (Fin (outputTokens tc))"
  obtain l where l: "tTest div0 (map (\<lambda>tc. Fin (latency tc)) ?A) (map (\<lambda>tc. Fin (latency tc)) ?B) = Inr l"
    using tTest_total [of "map (\<lambda>tc. Fin (latency tc)) ?A" "map (\<lambda>tc. Fin (latency tc)) ?B"] assms
    by auto
  obtain c where c: "tTest div0 (map (\<lambda>tc. Fin (cost tc)) ?A) (map (\<lambda>tc. Fin (cost tc)) ?B) = Inr c"
    using tTest_total [of "map (\<lambda>tc. Fin (cost tc)) ?A" "map (\<lambda>tc. Fin (cost tc)) ?B"] assms
    by auto
  obtain t where t: "tTest div0 (map ?tokens ?A) (map ?tokens ?B) = Inr t"
    using tTest_total [of "map ?tokens ?A" "map ?tokens ?B"] assms by auto
  show ?thesis
    by (simp add: compareVersions_def Let_def l c t del: jadd.simps)
qed






text \<open>
  C10.  \<open>tTest\<close> throws the error of \<open>mean\<close> when one of the samples is
  empty, and returns a result when both are non-empty.  So
  \<open>compareVersions\<close> throws when one of the versions has no successful
  case, and returns the three comparisons when both have one.
\<close>

theorem C10_tTest_partial_on_empty_samples:
  "(sampleA = [] \<or> sampleB = [] \<longrightarrow>
      tTest div0 sampleA sampleB = Inl (Error ''mean requires at least one data point''))
   \<and> (sampleA \<noteq> [] \<and> sampleB \<noteq> [] \<longrightarrow> (\<exists>r. tTest div0 sampleA sampleB = Inr r))
   \<and> (filter success (result_testCases resultA) = []
        \<or> filter success (result_testCases resultB) = [] \<longrightarrow>
      compareVersions div0 resultA resultB = Inl (Error ''mean requires at least one data point''))
   \<and> (filter success (result_testCases resultA) \<noteq> []
        \<and> filter success (result_testCases resultB) \<noteq> [] \<longrightarrow>
      (\<exists>c. compareVersions div0 resultA resultB = Inr c))"
  using tTest_empty [of sampleA sampleB div0] tTest_total [of sampleA sampleB div0]
    compareVersions_no_success [of resultA resultB div0]
    compareVersions_total [of resultA resultB div0]
  by blast

theorem C10_tTest_partial_on_empty_samples_witness:
  "tTest ieee_div_zero [] [Fin 120] = Inl (Error ''mean requires at least one data point'')
   \<and> (\<exists>r. tTest ieee_div_zero [Fin 100] [Fin 110] = Inr r)
   \<and> compareVersions ieee_div_zero version_failed version_ok
       = Inl (Error ''mean requires at least one data point'')
   \<and> (\<exists>c. compareVersions ieee_div_zero version_ok version_ok = Inr c)"
proof -
  have failed: "filter success (result_testCases version_failed) = []"
    by (simp add: version_failed_def failed_result_def)
  have ok: "filter success (result_testCases version_ok) \<noteq> []"
    by (simp add: version_ok_def ok_result_def)
  note t1 = C10_tTest_partial_on_empty_samples
    [of "[]" "[Fin 120]" ieee_div_zero version_failed version_ok]
  note t2 = C10_tTest_partial_on_empty_samples
    [of "[Fin 100]" "[Fin 110]" ieee_div_zero version_ok version_ok]
  from t1 have "tTest ieee_div_zero [] [Fin 120] = Inl (Error ''mean requires at least one data point'')"
    by simp
  moreover from t2 have "\<exists>r. tTest ieee_div_zero [Fin 100] [Fin 110] = Inr r"
    by simp
  moreover from t1 failed have "compareVersions ieee_div_zero version_failed version_ok
       = Inl (Error ''mean requires at least one data point'')"
    by simp
  moreover from t2 ok have "\<exists>c. compareVersions ieee_div_zero version_ok version_ok = Inr c"
    by simp
  ultimately show ?thesis
    by (intro conjI)
qed
end
